theory Spec2Isabelle
  imports Main
begin

section \<open>The source tree (TypeScript nodes read by the converter)\<close>

text \<open>
  \<^verbatim>\<open>ts.SyntaxKind\<close> is a numeric enum of the TypeScript library. The converter only compares
  kinds with the enum members it names and prints them through the reverse mapping
  \<^verbatim>\<open>ts.SyntaxKind[k]\<close>. A kind is identified here by the name of its enum member; the members
  the converter names are pairwise different values. The reverse mapping belongs to the
  library and is a parameter of the model (field \<open>SyntaxKindName\<close> below).
\<close>

datatype SyntaxKind = SyntaxKind string

abbreviation "SyntaxKind_ImportDeclaration \<equiv> SyntaxKind ''ImportDeclaration''"
abbreviation "SyntaxKind_ExportDeclaration \<equiv> SyntaxKind ''ExportDeclaration''"
abbreviation "SyntaxKind_ExportAssignment \<equiv> SyntaxKind ''ExportAssignment''"
abbreviation "SyntaxKind_VariableStatement \<equiv> SyntaxKind ''VariableStatement''"
abbreviation "SyntaxKind_TypeAliasDeclaration \<equiv> SyntaxKind ''TypeAliasDeclaration''"
abbreviation "SyntaxKind_FunctionDeclaration \<equiv> SyntaxKind ''FunctionDeclaration''"
abbreviation "SyntaxKind_ClassDeclaration \<equiv> SyntaxKind ''ClassDeclaration''"
abbreviation "SyntaxKind_InterfaceDeclaration \<equiv> SyntaxKind ''InterfaceDeclaration''"
abbreviation "SyntaxKind_Block \<equiv> SyntaxKind ''Block''"
abbreviation "SyntaxKind_EmptyStatement \<equiv> SyntaxKind ''EmptyStatement''"
abbreviation "SyntaxKind_EnumDeclaration \<equiv> SyntaxKind ''EnumDeclaration''"
abbreviation "SyntaxKind_ModuleDeclaration \<equiv> SyntaxKind ''ModuleDeclaration''"
abbreviation "SyntaxKind_NamespaceExportDeclaration \<equiv> SyntaxKind ''NamespaceExportDeclaration''"
abbreviation "SyntaxKind_ImportEqualsDeclaration \<equiv> SyntaxKind ''ImportEqualsDeclaration''"
abbreviation "SyntaxKind_MissingDeclaration \<equiv> SyntaxKind ''MissingDeclaration''"
abbreviation "SyntaxKind_ExpressionStatement \<equiv> SyntaxKind ''ExpressionStatement''"
abbreviation "SyntaxKind_IfStatement \<equiv> SyntaxKind ''IfStatement''"
abbreviation "SyntaxKind_DoStatement \<equiv> SyntaxKind ''DoStatement''"
abbreviation "SyntaxKind_WhileStatement \<equiv> SyntaxKind ''WhileStatement''"
abbreviation "SyntaxKind_ForStatement \<equiv> SyntaxKind ''ForStatement''"
abbreviation "SyntaxKind_ForInStatement \<equiv> SyntaxKind ''ForInStatement''"
abbreviation "SyntaxKind_ForOfStatement \<equiv> SyntaxKind ''ForOfStatement''"
abbreviation "SyntaxKind_ContinueStatement \<equiv> SyntaxKind ''ContinueStatement''"
abbreviation "SyntaxKind_BreakStatement \<equiv> SyntaxKind ''BreakStatement''"
abbreviation "SyntaxKind_ReturnStatement \<equiv> SyntaxKind ''ReturnStatement''"
abbreviation "SyntaxKind_WithStatement \<equiv> SyntaxKind ''WithStatement''"
abbreviation "SyntaxKind_SwitchStatement \<equiv> SyntaxKind ''SwitchStatement''"
abbreviation "SyntaxKind_LabeledStatement \<equiv> SyntaxKind ''LabeledStatement''"
abbreviation "SyntaxKind_ThrowStatement \<equiv> SyntaxKind ''ThrowStatement''"
abbreviation "SyntaxKind_TryStatement \<equiv> SyntaxKind ''TryStatement''"
abbreviation "SyntaxKind_DebuggerStatement \<equiv> SyntaxKind ''DebuggerStatement''"
abbreviation "SyntaxKind_CaseBlock \<equiv> SyntaxKind ''CaseBlock''"
abbreviation "SyntaxKind_VariableDeclaration \<equiv> SyntaxKind ''VariableDeclaration''"
abbreviation "SyntaxKind_VariableDeclarationList \<equiv> SyntaxKind ''VariableDeclarationList''"
abbreviation "SyntaxKind_ModuleBlock \<equiv> SyntaxKind ''ModuleBlock''"
abbreviation "SyntaxKind_ImportClause \<equiv> SyntaxKind ''ImportClause''"
abbreviation "SyntaxKind_NamespaceImport \<equiv> SyntaxKind ''NamespaceImport''"
abbreviation "SyntaxKind_NamedImports \<equiv> SyntaxKind ''NamedImports''"
abbreviation "SyntaxKind_ImportSpecifier \<equiv> SyntaxKind ''ImportSpecifier''"
abbreviation "SyntaxKind_NamedExports \<equiv> SyntaxKind ''NamedExports''"
abbreviation "SyntaxKind_NamespaceExport \<equiv> SyntaxKind ''NamespaceExport''"
abbreviation "SyntaxKind_ExportSpecifier \<equiv> SyntaxKind ''ExportSpecifier''"
abbreviation "SyntaxKind_ExportKeyword \<equiv> SyntaxKind ''ExportKeyword''"
abbreviation "SyntaxKind_DefaultKeyword \<equiv> SyntaxKind ''DefaultKeyword''"
abbreviation "SyntaxKind_ExtendsKeyword \<equiv> SyntaxKind ''ExtendsKeyword''"
abbreviation "SyntaxKind_Constructor \<equiv> SyntaxKind ''Constructor''"
abbreviation "SyntaxKind_PropertySignature \<equiv> SyntaxKind ''PropertySignature''"
abbreviation "SyntaxKind_PropertyDeclaration \<equiv> SyntaxKind ''PropertyDeclaration''"
abbreviation "SyntaxKind_MethodSignature \<equiv> SyntaxKind ''MethodSignature''"
abbreviation "SyntaxKind_MethodDeclaration \<equiv> SyntaxKind ''MethodDeclaration''"
abbreviation "SyntaxKind_CallSignature \<equiv> SyntaxKind ''CallSignature''"
abbreviation "SyntaxKind_ConstructSignature \<equiv> SyntaxKind ''ConstructSignature''"
abbreviation "SyntaxKind_SemicolonClassElement \<equiv> SyntaxKind ''SemicolonClassElement''"
abbreviation "SyntaxKind_GetAccessor \<equiv> SyntaxKind ''GetAccessor''"
abbreviation "SyntaxKind_SetAccessor \<equiv> SyntaxKind ''SetAccessor''"
abbreviation "SyntaxKind_IndexSignature \<equiv> SyntaxKind ''IndexSignature''"
abbreviation "SyntaxKind_ClassStaticBlockDeclaration \<equiv> SyntaxKind ''ClassStaticBlockDeclaration''"
abbreviation "SyntaxKind_Identifier \<equiv> SyntaxKind ''Identifier''"
abbreviation "SyntaxKind_PrivateIdentifier \<equiv> SyntaxKind ''PrivateIdentifier''"
abbreviation "SyntaxKind_PropertyAccessExpression \<equiv> SyntaxKind ''PropertyAccessExpression''"
abbreviation "SyntaxKind_UnknownKeyword \<equiv> SyntaxKind ''UnknownKeyword''"
abbreviation "SyntaxKind_AnyKeyword \<equiv> SyntaxKind ''AnyKeyword''"
abbreviation "SyntaxKind_NeverKeyword \<equiv> SyntaxKind ''NeverKeyword''"
abbreviation "SyntaxKind_UndefinedKeyword \<equiv> SyntaxKind ''UndefinedKeyword''"
abbreviation "SyntaxKind_VoidKeyword \<equiv> SyntaxKind ''VoidKeyword''"
abbreviation "SyntaxKind_BooleanKeyword \<equiv> SyntaxKind ''BooleanKeyword''"
abbreviation "SyntaxKind_NumberKeyword \<equiv> SyntaxKind ''NumberKeyword''"
abbreviation "SyntaxKind_StringKeyword \<equiv> SyntaxKind ''StringKeyword''"
abbreviation "SyntaxKind_ObjectKeyword \<equiv> SyntaxKind ''ObjectKeyword''"
abbreviation "SyntaxKind_ThisType \<equiv> SyntaxKind ''ThisType''"
abbreviation "SyntaxKind_ParenthesizedType \<equiv> SyntaxKind ''ParenthesizedType''"
abbreviation "SyntaxKind_LiteralType \<equiv> SyntaxKind ''LiteralType''"
abbreviation "SyntaxKind_TypeQuery \<equiv> SyntaxKind ''TypeQuery''"
abbreviation "SyntaxKind_TypeOperator \<equiv> SyntaxKind ''TypeOperator''"
abbreviation "SyntaxKind_TypeReference \<equiv> SyntaxKind ''TypeReference''"
abbreviation "SyntaxKind_UnionType \<equiv> SyntaxKind ''UnionType''"
abbreviation "SyntaxKind_IntersectionType \<equiv> SyntaxKind ''IntersectionType''"
abbreviation "SyntaxKind_IndexedAccessType \<equiv> SyntaxKind ''IndexedAccessType''"
abbreviation "SyntaxKind_ArrayType \<equiv> SyntaxKind ''ArrayType''"
abbreviation "SyntaxKind_TupleType \<equiv> SyntaxKind ''TupleType''"
abbreviation "SyntaxKind_FunctionType \<equiv> SyntaxKind ''FunctionType''"
abbreviation "SyntaxKind_TypeLiteral \<equiv> SyntaxKind ''TypeLiteral''"
abbreviation "SyntaxKind_TypePredicate \<equiv> SyntaxKind ''TypePredicate''"
abbreviation "SyntaxKind_ConstructorType \<equiv> SyntaxKind ''ConstructorType''"
abbreviation "SyntaxKind_OptionalType \<equiv> SyntaxKind ''OptionalType''"
abbreviation "SyntaxKind_RestType \<equiv> SyntaxKind ''RestType''"
abbreviation "SyntaxKind_ConditionalType \<equiv> SyntaxKind ''ConditionalType''"
abbreviation "SyntaxKind_InferType \<equiv> SyntaxKind ''InferType''"
abbreviation "SyntaxKind_MappedType \<equiv> SyntaxKind ''MappedType''"
abbreviation "SyntaxKind_TemplateLiteralType \<equiv> SyntaxKind ''TemplateLiteralType''"
abbreviation "SyntaxKind_TemplateLiteralTypeSpan \<equiv> SyntaxKind ''TemplateLiteralTypeSpan''"
abbreviation "SyntaxKind_ImportType \<equiv> SyntaxKind ''ImportType''"
abbreviation "SyntaxKind_NamedTupleMember \<equiv> SyntaxKind ''NamedTupleMember''"
abbreviation "SyntaxKind_NullKeyword \<equiv> SyntaxKind ''NullKeyword''"
abbreviation "SyntaxKind_FalseKeyword \<equiv> SyntaxKind ''FalseKeyword''"
abbreviation "SyntaxKind_TrueKeyword \<equiv> SyntaxKind ''TrueKeyword''"
abbreviation "SyntaxKind_PrefixUnaryExpression \<equiv> SyntaxKind ''PrefixUnaryExpression''"
abbreviation "SyntaxKind_NumericLiteral \<equiv> SyntaxKind ''NumericLiteral''"
abbreviation "SyntaxKind_StringLiteral \<equiv> SyntaxKind ''StringLiteral''"
abbreviation "SyntaxKind_BigIntLiteral \<equiv> SyntaxKind ''BigIntLiteral''"
abbreviation "SyntaxKind_MinusToken \<equiv> SyntaxKind ''MinusToken''"
abbreviation "SyntaxKind_KeyOfKeyword \<equiv> SyntaxKind ''KeyOfKeyword''"
abbreviation "SyntaxKind_UniqueKeyword \<equiv> SyntaxKind ''UniqueKeyword''"
abbreviation "SyntaxKind_ReadonlyKeyword \<equiv> SyntaxKind ''ReadonlyKeyword''"
abbreviation "SyntaxKind_ComputedPropertyName \<equiv> SyntaxKind ''ComputedPropertyName''"

text \<open>
  \<^verbatim>\<open>ts.Identifier\<close>, holding its \<^verbatim>\<open>text\<close>, the only field the converter reads. Where the source narrows a name to
  \<^verbatim>\<open>ts.Identifier\<close> with a cast (the name of a variable declaration, the name of a property
  signature in a type literal), the model takes the name at the type the cast gives it.
\<close>

datatype ts_Identifier = Identifier string

text \<open>\<^verbatim>\<open>ts.EntityNameOrEntityNameExpression\<close>.\<close>

datatype ts_EntityName =
    EntityName_Identifier ts_Identifier
  | QualifiedName ts_EntityName ts_Identifier
  | PropertyAccessEntityNameExpression ts_EntityName ts_Identifier

datatype ts_MemberName =
    MemberName_Identifier ts_Identifier
  | MemberName_PrivateIdentifier string

text \<open>
  Expressions, as far as the converter looks into them. \<open>Expression k\<close> is a node of any
  other kind \<open>k\<close> (a keyword token such as \<^verbatim>\<open>null\<close>, a call, a big-integer literal, ...), of
  which only the kind is read.
\<close>

datatype ts_Expression =
    Expression_Identifier ts_Identifier
  | PropertyAccessExpression ts_Expression ts_MemberName
  | PrefixUnaryExpression SyntaxKind ts_Expression
  | NumericLiteral string
  | StringLiteral string
  | Expression SyntaxKind

fun Expression_kind :: "ts_Expression \<Rightarrow> SyntaxKind" where
  "Expression_kind (Expression_Identifier _) = SyntaxKind_Identifier"
| "Expression_kind (PropertyAccessExpression _ _) = SyntaxKind_PropertyAccessExpression"
| "Expression_kind (PrefixUnaryExpression _ _) = SyntaxKind_PrefixUnaryExpression"
| "Expression_kind (NumericLiteral _) = SyntaxKind_NumericLiteral"
| "Expression_kind (StringLiteral _) = SyntaxKind_StringLiteral"
| "Expression_kind (Expression k) = k"

text \<open>\<^verbatim>\<open>ts.BindingName\<close> of a parameter: an identifier, or a binding pattern of some kind.\<close>

datatype ts_BindingName =
    BindingName_Identifier ts_Identifier
  | BindingPattern SyntaxKind

text \<open>
  \<^verbatim>\<open>ts.PropertyName\<close>: an identifier, a private identifier, or a name of another kind (string
  literal, numeric literal, computed property name), of which only the kind is read.
\<close>

datatype ts_PropertyName =
    PropertyName_Identifier ts_Identifier
  | PropertyName_PrivateIdentifier string
  | PropertyName SyntaxKind

text \<open>
  Type nodes. Every node carries its span \<open>pos\<close>, \<open>end'\<close> (offsets into the file text). A kind
  whose children the converter reads has a constructor of its own; \<open>TypeNode k\<close> is a node of
  any other kind \<open>k\<close> (keyword types, \<^verbatim>\<open>this\<close>, and the kinds the converter does not descend
  into). \<open>SignatureDeclaration\<close> holds what \<^verbatim>\<open>convertFunctionType\<close> reads of a
  \<^verbatim>\<open>FunctionTypeNode\<close>, \<^verbatim>\<open>FunctionDeclaration\<close>, \<^verbatim>\<open>ConstructorDeclaration\<close> or
  \<^verbatim>\<open>MethodDeclaration\<close>: type parameters, parameters and the return type.
\<close>

datatype ts_TypeNode =
    TypeNode SyntaxKind (pos: int) (end': int)
  | ParenthesizedTypeNode (pos: int) (end': int) ts_TypeNode
  | LiteralTypeNode (pos: int) (end': int) ts_Expression
  | TypeQueryNode (pos: int) (end': int) ts_EntityName
  | TypeOperatorNode (pos: int) (end': int) SyntaxKind ts_TypeNode
  | TypeReferenceNode (pos: int) (end': int) ts_EntityName "ts_TypeNode list option"
  | UnionTypeNode (pos: int) (end': int) "ts_TypeNode list"
  | IntersectionTypeNode (pos: int) (end': int) "ts_TypeNode list"
  | IndexedAccessTypeNode (pos: int) (end': int) ts_TypeNode ts_TypeNode
  | ArrayTypeNode (pos: int) (end': int) ts_TypeNode
  | TupleTypeNode (pos: int) (end': int) "ts_TypeNode list"
  | FunctionTypeNode (pos: int) (end': int) ts_SignatureDeclaration
  | TypeLiteralNode (pos: int) (end': int) "ts_TypeElement list"
and ts_SignatureDeclaration =
    SignatureDeclaration
      "ts_TypeParameterDeclaration list option"
      "ts_ParameterDeclaration list"
      "ts_TypeNode option"
and ts_TypeParameterDeclaration =
    TypeParameterDeclaration ts_Identifier "ts_TypeNode option" "ts_TypeNode option"
and ts_ParameterDeclaration =
    ParameterDeclaration ts_BindingName bool bool "ts_TypeNode option"
and ts_TypeElement =
    TypeElement_PropertySignature ts_Identifier bool "ts_TypeNode option"
  | TypeElement SyntaxKind

text \<open>
  Fields, in order. \<open>TypeParameterDeclaration name constraint default\<close>;
  \<open>ParameterDeclaration name dotDotDotToken questionToken type\<close> (the two tokens as
  "present"); \<open>TypeElement_PropertySignature name questionToken type\<close> is a property
  signature of a type literal; \<open>TypeElement k\<close> a member of any other kind.
\<close>

text \<open>
  \<^verbatim>\<open>ts.Symbol\<close>, as far as it is read: \<open>Symbol n flags declarations\<close>, with \<open>n\<close> its
  identity (the mapper looks rewrites up by symbol), and of each declaration its
  \<^verbatim>\<open>typeParameters\<close>.
\<close>

datatype ts_Declaration = Declaration "ts_TypeParameterDeclaration list option"

datatype ts_Symbol =
  Symbol nat int "ts_Declaration list option"

subsection \<open>Statements\<close>

datatype ts_ImportSpecifier =
  ImportSpecifier "ts_Identifier option" ts_Identifier

datatype ts_NamedImportBindings =
    NamedImports "ts_ImportSpecifier list"
  | NamespaceImport ts_Identifier

datatype ts_ImportClause =
  ImportClause "SyntaxKind list option" "ts_Identifier option" "ts_NamedImportBindings option"

datatype ts_ExportSpecifier =
  ExportSpecifier bool "ts_Identifier option" ts_Identifier

text \<open>
  \<^verbatim>\<open>ts.NamedExportBindings\<close>. \<open>NamedExportBindings k\<close> is a clause of another kind, which the
  declared types exclude and the source still handles at run time.
\<close>

datatype ts_NamedExportBindings =
    NamespaceExport ts_Identifier
  | NamedExports "ts_ExportSpecifier list"
  | NamedExportBindings SyntaxKind

datatype ts_VariableDeclaration =
  VariableDeclaration ts_Identifier "ts_TypeNode option"

datatype ts_VariableDeclarationList =
  VariableDeclarationList int "ts_VariableDeclaration list"

datatype ts_ExpressionWithTypeArguments =
  ExpressionWithTypeArguments ts_Expression "ts_TypeNode list option"

datatype ts_HeritageClause =
  HeritageClause SyntaxKind "ts_ExpressionWithTypeArguments list"

text \<open>
  Members of a class or interface. Property and method members carry
  \<open>name questionToken type\<close> and \<open>name questionToken signature\<close>; \<open>ClassElement k\<close> is a
  member of any other kind.
\<close>

datatype ts_ClassElement =
    ConstructorDeclaration ts_SignatureDeclaration
  | PropertySignature ts_PropertyName bool "ts_TypeNode option"
  | PropertyDeclaration ts_PropertyName bool "ts_TypeNode option"
  | MethodSignature ts_PropertyName bool ts_SignatureDeclaration
  | MethodDeclaration ts_PropertyName bool ts_SignatureDeclaration
  | ClassElement SyntaxKind

text \<open>What \<^verbatim>\<open>convertClassLikeDeclaration\<close> reads of a class or interface declaration.\<close>

datatype ts_ClassLike =
  ClassLike
    "ts_Identifier option"
    "ts_TypeParameterDeclaration list option"
    "ts_HeritageClause list option"
    "ts_ClassElement list"

text \<open>
  Top-level statements. Each carries \<open>pos\<close>, \<open>end'\<close> and its \<open>modifiers\<close> (the kinds of the
  modifier tokens; \<open>None\<close> when the node has none). \<open>Statement k\<close> is a statement of any kind
  without a constructor of its own. The module specifier is the text of the string literal
  the source casts it to. Fields after the modifiers, in order:
  \<open>ImportDeclaration importClause moduleSpecifier\<close>;
  \<open>ExportDeclaration isTypeOnly exportClause moduleSpecifier assertClause\<close> (the last as
  "present"); \<open>ExportAssignment isExportEquals expression\<close>;
  \<open>VariableStatement declarationList\<close>; \<open>TypeAliasDeclaration name typeParameters type\<close>;
  \<open>FunctionDeclaration name signature\<close>.
\<close>

datatype ts_Statement =
    ImportDeclaration (pos: int) (end': int) (modifiers: "SyntaxKind list option")
      "ts_ImportClause option" string
  | ExportDeclaration (pos: int) (end': int) (modifiers: "SyntaxKind list option")
      bool "ts_NamedExportBindings option" "string option" bool
  | ExportAssignment (pos: int) (end': int) (modifiers: "SyntaxKind list option")
      bool ts_Expression
  | VariableStatement (pos: int) (end': int) (modifiers: "SyntaxKind list option")
      ts_VariableDeclarationList
  | TypeAliasDeclaration (pos: int) (end': int) (modifiers: "SyntaxKind list option")
      ts_Identifier "ts_TypeParameterDeclaration list option" ts_TypeNode
  | FunctionDeclaration (pos: int) (end': int) (modifiers: "SyntaxKind list option")
      "ts_Identifier option" ts_SignatureDeclaration
  | ClassDeclaration (pos: int) (end': int) (modifiers: "SyntaxKind list option")
      ts_ClassLike
  | InterfaceDeclaration (pos: int) (end': int) (modifiers: "SyntaxKind list option")
      ts_ClassLike
  | Statement SyntaxKind (pos: int) (end': int) (modifiers: "SyntaxKind list option")

section \<open>The target tree (ast-types nodes built by the converter)\<close>

text \<open>
  A target node is written as the builder that makes it: \<open>b_identifier\<close> is the node built by
  \<^verbatim>\<open>b.identifier(...)\<close> or \<^verbatim>\<open>b.identifier.from({...})\<close>, its arguments the node's fields.
  A field a builder call leaves out has the default of ast-types (\<^verbatim>\<open>null\<close>, an empty
  array, \<^verbatim>\<open>false\<close>), written out at each call. \<^verbatim>\<open>null\<close> and \<^verbatim>\<open>undefined\<close> are \<open>None\<close>.
\<close>

datatype CommentKind = b_commentBlock string bool bool

text \<open>The number \<^verbatim>\<open>Number(text)\<close> of a numeric literal, and its negation, kept symbolic.\<close>

datatype js_number = Number string | Negate js_number

datatype StringLiteral = b_stringLiteral string

text \<open>
  The wrapper nodes \<^verbatim>\<open>TypeAnnotation\<close>, \<^verbatim>\<open>TypeParameterInstantiation\<close> and
  \<^verbatim>\<open>TypeParameterDeclaration\<close>, over the type of what they wrap. The converter never builds
  an \<^verbatim>\<open>ObjectTypeCallProperty\<close>; the type stands for the element type of the always empty
  \<^verbatim>\<open>callProperties\<close>.
\<close>

datatype 't TypeAnnotation_of = b_typeAnnotation 't
datatype 't TypeParameterInstantiation_of = b_typeParameterInstantiation "'t list"
datatype 'p TypeParameterDeclaration_of = b_typeParameterDeclaration "'p list"
datatype ObjectTypeCallProperty = ObjectTypeCallProperty

text \<open>
  \<^verbatim>\<open>K.FlowTypeKind\<close> and the nodes below it. Fields, in order:
  \<open>b_objectTypeAnnotation properties indexers callProperties exact inexact\<close>;
  \<open>b_genericTypeAnnotation id typeParameters comments\<close>;
  \<open>b_functionTypeAnnotation params returnType rest typeParameters\<close>;
  \<open>b_identifier name typeAnnotation\<close>; \<open>b_qualifiedTypeIdentifier qualification id\<close>;
  \<open>b_functionTypeParam name typeAnnotation optional\<close>;
  \<open>b_objectTypeProperty key value optional\<close>, the key an identifier (\<open>Inl\<close>) or a
  literal (\<open>Inr\<close>); \<open>b_objectTypeIndexer id key value\<close>;
  \<open>b_typeParameter name variance bound default\<close>.
\<close>

datatype FlowTypeKind =
    b_mixedTypeAnnotation
  | b_anyTypeAnnotation
  | b_emptyTypeAnnotation
  | b_voidTypeAnnotation
  | b_booleanTypeAnnotation
  | b_numberTypeAnnotation
  | b_stringTypeAnnotation
  | b_thisTypeAnnotation
  | b_nullTypeAnnotation
  | b_objectTypeAnnotation
      "ObjectTypeProperty list" "ObjectTypeIndexer list" "ObjectTypeCallProperty list"
      bool "bool option"
  | b_booleanLiteralTypeAnnotation bool string
  | b_numberLiteralTypeAnnotation js_number string
  | b_stringLiteralTypeAnnotation string string
  | b_typeofTypeAnnotation FlowTypeKind
  | b_genericTypeAnnotation
      IdentifierKind "FlowTypeKind TypeParameterInstantiation_of option"
      "CommentKind list option"
  | b_unionTypeAnnotation "FlowTypeKind list"
  | b_intersectionTypeAnnotation "FlowTypeKind list"
  | b_arrayTypeAnnotation FlowTypeKind
  | b_tupleTypeAnnotation "FlowTypeKind list"
  | b_functionTypeAnnotation
      "FunctionTypeParam list" FlowTypeKind "FunctionTypeParam option"
      "TypeParameter TypeParameterDeclaration_of option"
and IdentifierKind =
    b_identifier string "FlowTypeKind TypeAnnotation_of option"
  | b_qualifiedTypeIdentifier IdentifierKind IdentifierKind
and FunctionTypeParam = b_functionTypeParam "IdentifierKind option" FlowTypeKind bool
and ObjectTypeProperty =
    b_objectTypeProperty "IdentifierKind + StringLiteral" FlowTypeKind bool
and ObjectTypeIndexer = b_objectTypeIndexer IdentifierKind FlowTypeKind FlowTypeKind
and TypeParameter =
    b_typeParameter string "unit option" "FlowTypeKind TypeAnnotation_of option"
      "FlowTypeKind option"

type_synonym TypeAnnotation = "FlowTypeKind TypeAnnotation_of"
type_synonym TypeParameterInstantiation = "FlowTypeKind TypeParameterInstantiation_of"
type_synonym TypeParameterDeclaration = "TypeParameter TypeParameterDeclaration_of"

text \<open>
  The shape \<open>ReferenceShape id typeParameters\<close> a type-reference conversion succeeds
  with, and the three-way outcome \<^verbatim>\<open>ErrorOr\<close>, its constructors named after the \<^verbatim>\<open>kind\<close>
  tags.
\<close>

datatype ReferenceShape = ReferenceShape IdentifierKind "TypeParameterInstantiation option"

datatype 'a ErrorOr =
    success 'a
  | unimplemented string
  | error string

definition mkError :: "string \<Rightarrow> 'a ErrorOr" where
  "mkError description = error description"

definition mkUnimplemented :: "string \<Rightarrow> 'a ErrorOr" where
  "mkUnimplemented description = unimplemented description"

definition mkSuccess :: "'a \<Rightarrow> 'a ErrorOr" where
  "mkSuccess r = success r"

subsection \<open>Target statements\<close>

datatype ImportSpecifierKind =
    b_importDefaultSpecifier IdentifierKind
  | b_importSpecifier IdentifierKind IdentifierKind string
  | b_importNamespaceSpecifier IdentifierKind

datatype ExportSpecifierKind =
    b_exportSpecifier IdentifierKind IdentifierKind string
  | b_exportNamespaceSpecifier IdentifierKind

datatype VariableDeclarator = b_variableDeclarator IdentifierKind

datatype InterfaceExtends =
  b_interfaceExtends IdentifierKind "TypeParameterInstantiation option"

text \<open>
  \<^verbatim>\<open>K.StatementKind\<close>: the statements the converter builds, each with its \<open>comments\<close> field
  last, and two of the other statement kinds of ast-types, which the converter never
  builds. Fields, in order: \<open>b_importDeclaration specifiers source\<close>;
  \<open>b_exportAllDeclaration source exported\<close>;
  \<open>b_exportNamedDeclaration declaration specifiers source exportKind\<close>;
  \<open>b_variableDeclaration kind declarations\<close>; \<open>b_typeAlias id typeParameters right\<close>;
  \<open>b_declareClass\<close>, \<open>b_declareInterface\<close> and \<open>b_interfaceDeclaration\<close> take
  \<open>id typeParameters extends body\<close>; \<open>b_declareExportDeclaration default declaration\<close>.
\<close>

datatype StatementKind =
    b_emptyStatement (comments: "CommentKind list option")
  | b_importDeclaration "ImportSpecifierKind list" StringLiteral
      (comments: "CommentKind list option")
  | b_exportAllDeclaration StringLiteral "IdentifierKind option"
      (comments: "CommentKind list option")
  | b_exportNamedDeclaration "StatementKind option" "ExportSpecifierKind list"
      "StringLiteral option" "string option" (comments: "CommentKind list option")
  | b_exportDefaultDeclaration IdentifierKind (comments: "CommentKind list option")
  | b_variableDeclaration string "VariableDeclarator list"
      (comments: "CommentKind list option")
  | b_typeAlias IdentifierKind "TypeParameterDeclaration option" FlowTypeKind
      (comments: "CommentKind list option")
  | b_declareFunction IdentifierKind (comments: "CommentKind list option")
  | b_declareClass IdentifierKind "TypeParameterDeclaration option"
      "InterfaceExtends list" FlowTypeKind (comments: "CommentKind list option")
  | b_declareInterface IdentifierKind "TypeParameterDeclaration option"
      "InterfaceExtends list" FlowTypeKind (comments: "CommentKind list option")
  | b_interfaceDeclaration IdentifierKind "TypeParameterDeclaration option"
      "InterfaceExtends list" FlowTypeKind (comments: "CommentKind list option")
  | b_declareExportDeclaration bool StatementKind (comments: "CommentKind list option")
  | b_debuggerStatement (comments: "CommentKind list option")
  | b_blockStatement "StatementKind list" (comments: "CommentKind list option")

datatype Program = b_program "CommentKind list option" "StatementKind list"

datatype File = b_file Program string

unbundle bit_operations_syntax

section \<open>What the converter is given\<close>

text \<open>
  The rewrite a mapper returns for a symbol (\<^verbatim>\<open>MapResult\<close> of \<^verbatim>\<open>./mapper\<close>, as
  \<^verbatim>\<open>convertTypeReferenceLike\<close> switches on it). The \<^verbatim>\<open>convert\<close> function of a
  \<^verbatim>\<open>TypeReferenceMacro\<close> is one of the macros of \<^verbatim>\<open>rewrite.ts\<close>, named here by a tag.
\<close>

datatype Macro =
    Macro_convertOmit
  | Macro_convertReactComponent
  | Macro_convertReactElement
  | Macro_convertJsxElement

datatype MapResult =
    FixedName string
  | TypeReferenceMacro Macro

text \<open>
  The closure variables of \<^verbatim>\<open>convertSourceFile\<close> and the library calls it makes:
  the file's text and name, the type checker's two symbol queries, the mapper's lookup,
  and the reverse mapping \<^verbatim>\<open>ts.SyntaxKind[k]\<close>.
\<close>

record Env =
  sourceFile_text :: string
  sourceFile_fileName :: string
  checker_getSymbolAtLocation :: "ts_EntityName \<Rightarrow> ts_Symbol option"
  checker_getImmediateAliasedSymbol :: "ts_Symbol \<Rightarrow> ts_Symbol option"
  mapper_getSymbol :: "ts_Symbol \<Rightarrow> MapResult option"
  SyntaxKindName :: "SyntaxKind \<Rightarrow> string"

text \<open>Values of the TypeScript library's flag enums that the converter masks with.\<close>

definition NodeFlags_Let :: int where "NodeFlags_Let = 1"
definition NodeFlags_Const :: int where "NodeFlags_Const = 2"
definition SymbolFlags_Value :: int where "SymbolFlags_Value = 111551"

section \<open>JavaScript and utility helpers\<close>

text \<open>
  \<^verbatim>\<open>String.prototype.slice(start, end)\<close> (the end offset is \<open>stop\<close> here): a negative offset counts from the end, offsets
  are clamped to the string, and an empty range gives the empty string. Strings are lists
  of characters and offsets index that list.
\<close>

definition slice :: "string \<Rightarrow> int \<Rightarrow> int \<Rightarrow> string" where
  "slice s start stop =
     (let len = int (length s);
          from = (if start < 0 then max (len + start) 0 else min start len);
          to = (if stop < 0 then max (len + stop) 0 else min stop len)
      in take (nat (to - from)) (drop (nat from) s))"

text \<open>A non-negative integer in a template literal: its decimal digits.\<close>

fun toString :: "nat \<Rightarrow> string" where
  "toString n =
     (if n < 10 then [''0123456789'' ! n]
      else toString (n div 10) @ [''0123456789'' ! (n mod 10)])"

declare toString.simps [simp del]

text \<open>
  Modelled from the spec: \<^verbatim>\<open>./util\<close> and \<^verbatim>\<open>./tsutil\<close> are not among the sources. \<^verbatim>\<open>some\<close>
  tests whether an element of a possibly absent array satisfies a predicate; \<^verbatim>\<open>map\<close> applies
  a function to each element in order; \<^verbatim>\<open>hasModifier\<close> tests whether the node carries a
  modifier of the given kind ("the declaration carried an export modifier"), as the
  earlier revision of the converter spells it out with \<^verbatim>\<open>some(node.modifiers, ...)\<close>.
\<close>

definition some :: "'a list option \<Rightarrow> ('a \<Rightarrow> bool) \<Rightarrow> bool" where
  "some xs p = (case xs of None \<Rightarrow> False | Some ys \<Rightarrow> list_ex p ys)"

definition map_util :: "'a list \<Rightarrow> ('a \<Rightarrow> 'b) \<Rightarrow> 'b list" where
  "map_util xs f = map f xs"

definition hasModifier :: "ts_Statement \<Rightarrow> SyntaxKind \<Rightarrow> bool" where
  "hasModifier node k = some (modifiers node) (\<lambda>m. m = k)"

text \<open>
  Modelled from the spec: \<^verbatim>\<open>isEntityNameOrEntityNameExpression\<close> of \<^verbatim>\<open>./tsutil\<close> ("each base
  must be a plain or qualified name (not an arbitrary expression)"). \<open>entityNameOf\<close> gives
  the expression at the type the test narrows it to: an identifier, or a property access
  of an entity-name expression by an identifier.
\<close>

fun entityNameOf :: "ts_Expression \<Rightarrow> ts_EntityName option" where
  "entityNameOf (Expression_Identifier i) = Some (EntityName_Identifier i)"
| "entityNameOf (PropertyAccessExpression e (MemberName_Identifier n)) =
     (case entityNameOf e of
        None \<Rightarrow> None
      | Some e' \<Rightarrow> Some (PropertyAccessEntityNameExpression e' n))"
| "entityNameOf _ = None"

definition isEntityNameOrEntityNameExpression :: "ts_Expression \<Rightarrow> bool" where
  "isEntityNameOrEntityNameExpression e = (entityNameOf e \<noteq> None)"

definition isIdentifier :: "ts_Expression \<Rightarrow> bool" where
  "isIdentifier e = (case e of Expression_Identifier _ \<Rightarrow> True | _ \<Rightarrow> False)"

definition isPropertyAccessExpression :: "ts_Expression \<Rightarrow> bool" where
  "isPropertyAccessExpression e = (case e of PropertyAccessExpression _ _ \<Rightarrow> True | _ \<Rightarrow> False)"

section \<open>Placeholders (\<^verbatim>\<open>convert.ts\<close>)\<close>

definition quotedStatement :: "Env \<Rightarrow> ts_Statement \<Rightarrow> CommentKind" where
  "quotedStatement env node =
     (let text = slice (sourceFile_text env) (pos node) (end' node)
      in b_commentBlock ('' '' @ text @ '' '') False True)"

definition quotedInlineNode :: "Env \<Rightarrow> ts_TypeNode \<Rightarrow> CommentKind" where
  "quotedInlineNode env node =
     (let text = slice (sourceFile_text env) (ts_TypeNode.pos node) (ts_TypeNode.end' node)
      in b_commentBlock ('' '' @ text @ '' '') False True)"

text \<open>\<^verbatim>\<open>{...outNode, comments: cs}\<close>: the same statement with its comments replaced.\<close>

fun with_comments :: "StatementKind \<Rightarrow> CommentKind list option \<Rightarrow> StatementKind" where
  "with_comments (b_emptyStatement _) cs = b_emptyStatement cs"
| "with_comments (b_importDeclaration a b _) cs = b_importDeclaration a b cs"
| "with_comments (b_exportAllDeclaration a b _) cs = b_exportAllDeclaration a b cs"
| "with_comments (b_exportNamedDeclaration a b c d _) cs = b_exportNamedDeclaration a b c d cs"
| "with_comments (b_exportDefaultDeclaration a _) cs = b_exportDefaultDeclaration a cs"
| "with_comments (b_variableDeclaration a b _) cs = b_variableDeclaration a b cs"
| "with_comments (b_typeAlias a b c _) cs = b_typeAlias a b c cs"
| "with_comments (b_declareFunction a _) cs = b_declareFunction a cs"
| "with_comments (b_declareClass a b c d _) cs = b_declareClass a b c d cs"
| "with_comments (b_declareInterface a b c d _) cs = b_declareInterface a b c d cs"
| "with_comments (b_interfaceDeclaration a b c d _) cs = b_interfaceDeclaration a b c d cs"
| "with_comments (b_declareExportDeclaration a b _) cs = b_declareExportDeclaration a b cs"
| "with_comments (b_debuggerStatement _) cs = b_debuggerStatement cs"
| "with_comments (b_blockStatement a _) cs = b_blockStatement a cs"

definition warningStatement :: "Env \<Rightarrow> StatementKind \<Rightarrow> ts_Statement \<Rightarrow> string \<Rightarrow> StatementKind" where
  "warningStatement env outNode node description =
     (let msg = '' tsflower-warning: '' @ description @ '' ''
      in with_comments outNode (Some [b_commentBlock msg True False, quotedStatement env node]))"

definition unimplementedStatement :: "Env \<Rightarrow> ts_Statement \<Rightarrow> string \<Rightarrow> StatementKind" where
  "unimplementedStatement env node description =
     (let msg = '' tsflower-unimplemented: '' @ description @ '' ''
      in b_emptyStatement (Some [b_commentBlock msg True False, quotedStatement env node]))"

definition errorStatement :: "Env \<Rightarrow> ts_Statement \<Rightarrow> string \<Rightarrow> StatementKind" where
  "errorStatement env node description =
     (let msg = '' tsflower-error: '' @ description @ '' ''
      in b_emptyStatement (Some [b_commentBlock msg True False, quotedStatement env node]))"

definition unimplementedType :: "Env \<Rightarrow> ts_TypeNode \<Rightarrow> string \<Rightarrow> FlowTypeKind" where
  "unimplementedType env node description =
     (let msg = '' tsflower-unimplemented: '' @ description @ '' ''
      in b_genericTypeAnnotation (b_identifier ''$FlowFixMe'' None) None
           (Some [quotedInlineNode env node, b_commentBlock msg False True]))"

definition errorType :: "Env \<Rightarrow> ts_TypeNode \<Rightarrow> string \<Rightarrow> FlowTypeKind" where
  "errorType env node description =
     (let msg = '' tsflower-error: '' @ description @ '' ''
      in b_genericTypeAnnotation (b_identifier ''$FlowFixMe'' None) None
           (Some [quotedInlineNode env node, b_commentBlock msg False True]))"

section \<open>Types (\<^verbatim>\<open>convert.ts\<close>, and the macros of \<^verbatim>\<open>rewrite.ts\<close>)\<close>

definition convertIdentifier :: "ts_Identifier \<Rightarrow> FlowTypeKind option \<Rightarrow> IdentifierKind" where
  "convertIdentifier node type' =
     (case node of Identifier text \<Rightarrow>
        (case type' of
           None \<Rightarrow> b_identifier text None
         | Some t \<Rightarrow> b_identifier text (Some (b_typeAnnotation t))))"

fun convertEntityNameAsType :: "ts_EntityName \<Rightarrow> IdentifierKind" where
  "convertEntityNameAsType (EntityName_Identifier node) = convertIdentifier node None"
| "convertEntityNameAsType (QualifiedName left right) =
     b_qualifiedTypeIdentifier (convertEntityNameAsType left) (convertIdentifier right None)"
| "convertEntityNameAsType (PropertyAccessEntityNameExpression expression name) =
     b_qualifiedTypeIdentifier (convertEntityNameAsType expression) (convertIdentifier name None)"

text \<open>\<^verbatim>\<open>convertLiteralType(node)\<close>, for \<open>node = LiteralTypeNode p e literal\<close>.\<close>

fun convertLiteralType :: "Env \<Rightarrow> ts_TypeNode \<Rightarrow> FlowTypeKind" where
  "convertLiteralType env (LiteralTypeNode p e literal) =
     (let node = LiteralTypeNode p e literal in
      case literal of
        PrefixUnaryExpression operator operand \<Rightarrow>
          if operator \<noteq> SyntaxKind_MinusToken then
            errorType env node
              (''LiteralTypeNode with PrefixUnaryExpression operator ''
                @ SyntaxKindName env operator @ ''; expected MinusToken'')
          else (case operand of
              NumericLiteral text \<Rightarrow> b_numberLiteralTypeAnnotation (Negate (Number text)) text
            | _ \<Rightarrow>
              errorType env node
                (''LiteralTypeNode with unary-minus of ''
                  @ SyntaxKindName env (Expression_kind operand) @ ''; expected NumericLiteral''))
      | NumericLiteral text \<Rightarrow> b_numberLiteralTypeAnnotation (Number text) text
      | StringLiteral text \<Rightarrow> b_stringLiteralTypeAnnotation text text
      | _ \<Rightarrow>
          if Expression_kind literal = SyntaxKind_NullKeyword then b_nullTypeAnnotation
          else if Expression_kind literal = SyntaxKind_FalseKeyword then
            b_booleanLiteralTypeAnnotation False ''false''
          else if Expression_kind literal = SyntaxKind_TrueKeyword then
            b_booleanLiteralTypeAnnotation True ''true''
          else
            errorType env node
              (''unexpected literal-type kind: '' @ SyntaxKindName env (Expression_kind literal)))"

text \<open>
  \<^verbatim>\<open>ts.isLiteralTypeNode(t) && ts.isStringLiteral(t.literal)\<close>, with the literal's text when
  it holds.
\<close>

fun stringLiteralTypeText :: "ts_TypeNode \<Rightarrow> string option" where
  "stringLiteralTypeText (LiteralTypeNode p e (StringLiteral text)) = Some text"
| "stringLiteralTypeText _ = None"

definition convertJsxElement :: "ReferenceShape ErrorOr" where
  "convertJsxElement =
     mkSuccess (ReferenceShape (b_identifier ''React$Element'' None)
       (Some (b_typeParameterInstantiation [b_anyTypeAnnotation])))"

text \<open>\<^verbatim>\<open>typeArguments?.length ?? 0\<close>\<close>

definition argumentCount :: "ts_TypeNode list option \<Rightarrow> nat" where
  "argumentCount typeArguments = (case typeArguments of None \<Rightarrow> 0 | Some xs \<Rightarrow> length xs)"

text \<open>
  The recursive descent. \<^verbatim>\<open>convertType\<close> switches on the node's kind; the kinds with a
  constructor of their own are its later equations, in the order of the source's cases.
  The two loops of the source are the functions \<open>convertFunctionType_parameters\<close> (the
  parameters still to visit, \<^verbatim>\<open>params\<close> so far; it gives \<^verbatim>\<open>params\<close> and \<^verbatim>\<open>restParam\<close>) and
  \<open>convertTypeLiteral_members\<close> (the members still to visit, \<^verbatim>\<open>properties\<close> so far; \<open>Inl\<close> is
  a \<^verbatim>\<open>return\<close> from inside the loop). The macros receive the converter's \<^verbatim>\<open>convertType\<close> and
  \<^verbatim>\<open>convertEntityNameAsType\<close> through the capability object; here they call them directly.
  In \<^verbatim>\<open>convertOmit\<close>, \<^verbatim>\<open>convertReactComponent\<close> and \<^verbatim>\<open>convertReactElement\<close> the equations
  by the shape of the argument list stand for the length test followed by the
  destructuring of the list.
\<close>

function (sequential) convertType :: "Env \<Rightarrow> ts_TypeNode \<Rightarrow> FlowTypeKind"
  and convertTypeOperator :: "Env \<Rightarrow> ts_TypeNode \<Rightarrow> FlowTypeKind"
  and convertTypeReference :: "Env \<Rightarrow> ts_TypeNode \<Rightarrow> FlowTypeKind"
  and convertTypeReferenceLike ::
    "Env \<Rightarrow> ts_EntityName \<Rightarrow> ts_TypeNode list option \<Rightarrow> ReferenceShape ErrorOr"
  and convertOmit ::
    "Env \<Rightarrow> ts_EntityName \<Rightarrow> ts_TypeNode list option \<Rightarrow> ReferenceShape ErrorOr"
  and convertReactComponent ::
    "Env \<Rightarrow> ts_EntityName \<Rightarrow> ts_TypeNode list option \<Rightarrow> ReferenceShape ErrorOr"
  and convertReactElement ::
    "Env \<Rightarrow> ts_EntityName \<Rightarrow> ts_TypeNode list option \<Rightarrow> ReferenceShape ErrorOr"
  and convertUnionType :: "Env \<Rightarrow> ts_TypeNode \<Rightarrow> FlowTypeKind"
  and convertFunctionType :: "Env \<Rightarrow> ts_SignatureDeclaration \<Rightarrow> FlowTypeKind"
  and convertFunctionType_parameters ::
    "Env \<Rightarrow> ts_ParameterDeclaration list \<Rightarrow> FunctionTypeParam list
      \<Rightarrow> FunctionTypeParam list \<times> FunctionTypeParam option"
  and convertTypeLiteral :: "Env \<Rightarrow> ts_TypeNode \<Rightarrow> FlowTypeKind"
  and convertTypeLiteral_members ::
    "Env \<Rightarrow> ts_TypeNode \<Rightarrow> ts_TypeElement list \<Rightarrow> ObjectTypeProperty list
      \<Rightarrow> FlowTypeKind + ObjectTypeProperty list"
  and convertTypeParameterDeclaration ::
    "Env \<Rightarrow> ts_TypeParameterDeclaration list option \<Rightarrow> TypeParameterDeclaration option"
  and convertTypeArguments ::
    "Env \<Rightarrow> ts_EntityName \<Rightarrow> ts_TypeNode list option \<Rightarrow> TypeParameterInstantiation option"
where
  "convertType env (TypeNode k p e) =
     (let node = TypeNode k p e in
      if k = SyntaxKind_UnknownKeyword then b_mixedTypeAnnotation
      else if k = SyntaxKind_AnyKeyword then b_anyTypeAnnotation
      else if k = SyntaxKind_NeverKeyword then b_emptyTypeAnnotation
      else if k = SyntaxKind_UndefinedKeyword \<or> k = SyntaxKind_VoidKeyword then
        b_voidTypeAnnotation
      else if k = SyntaxKind_BooleanKeyword then b_booleanTypeAnnotation
      else if k = SyntaxKind_NumberKeyword then b_numberTypeAnnotation
      else if k = SyntaxKind_StringKeyword then b_stringTypeAnnotation
      else if k = SyntaxKind_ObjectKeyword then b_objectTypeAnnotation [] [] [] False (Some True)
      else if k = SyntaxKind_ThisType then b_thisTypeAnnotation
      else if k \<in> {SyntaxKind_TypePredicate, SyntaxKind_ConstructorType,
                    SyntaxKind_OptionalType, SyntaxKind_RestType, SyntaxKind_ConditionalType,
                    SyntaxKind_InferType, SyntaxKind_MappedType,
                    SyntaxKind_TemplateLiteralType, SyntaxKind_TemplateLiteralTypeSpan,
                    SyntaxKind_ImportType} then
        unimplementedType env node (SyntaxKindName env k)
      else if k = SyntaxKind_NamedTupleMember then
        errorType env node (''unexpected type kind: '' @ SyntaxKindName env k)
      else errorType env node (''unexpected type kind: '' @ SyntaxKindName env k))"
| "convertType env (ParenthesizedTypeNode p e type') = convertType env type'"
| "convertType env (LiteralTypeNode p e literal) =
     convertLiteralType env (LiteralTypeNode p e literal)"
| "convertType env (TypeQueryNode p e exprName) =
     b_typeofTypeAnnotation
       (b_genericTypeAnnotation (convertEntityNameAsType exprName) None None)"
| "convertType env (TypeOperatorNode p e operator type') =
     convertTypeOperator env (TypeOperatorNode p e operator type')"
| "convertType env (TypeReferenceNode p e typeName typeArguments) =
     convertTypeReference env (TypeReferenceNode p e typeName typeArguments)"
| "convertType env (UnionTypeNode p e types) = convertUnionType env (UnionTypeNode p e types)"
| "convertType env (IntersectionTypeNode p e types) =
     b_intersectionTypeAnnotation (map (convertType env) types)"
| "convertType env (IndexedAccessTypeNode p e objectType indexType) =
     b_genericTypeAnnotation (b_identifier ''$ElementType'' None)
       (Some (b_typeParameterInstantiation
          [convertType env objectType, convertType env indexType]))
       None"
| "convertType env (ArrayTypeNode p e elementType) =
     b_arrayTypeAnnotation (convertType env elementType)"
| "convertType env (TupleTypeNode p e elements) =
     b_tupleTypeAnnotation (map (convertType env) elements)"
| "convertType env (FunctionTypeNode p e node) = convertFunctionType env node"
| "convertType env (TypeLiteralNode p e members) =
     convertTypeLiteral env (TypeLiteralNode p e members)"

| "convertTypeOperator env (TypeOperatorNode p e operator type') =
     (let node = TypeOperatorNode p e operator type' in
      if operator = SyntaxKind_KeyOfKeyword then
        b_genericTypeAnnotation (b_identifier ''$Keys'' None)
          (Some (b_typeParameterInstantiation [convertType env type'])) None
      else if operator = SyntaxKind_UniqueKeyword \<or> operator = SyntaxKind_ReadonlyKeyword then
        unimplementedType env node (''type operator: '' @ SyntaxKindName env operator)
      else errorType env node (''unexpected type operator: '' @ SyntaxKindName env operator))"

| "convertTypeReference env (TypeReferenceNode p e typeName typeArguments) =
     (let node = TypeReferenceNode p e typeName typeArguments in
      case convertTypeReferenceLike env typeName typeArguments of
        error description \<Rightarrow> errorType env node description
      | unimplemented description \<Rightarrow> unimplementedType env node description
      | success (ReferenceShape ident typeParameters) \<Rightarrow>
          b_genericTypeAnnotation ident typeParameters None)"

| "convertTypeReferenceLike env typeName typeArguments =
     (let symbol = checker_getSymbolAtLocation env typeName;
          mapped = (case symbol of None \<Rightarrow> None | Some s \<Rightarrow> mapper_getSymbol env s)
      in case mapped of
        Some (FixedName name) \<Rightarrow>
          mkSuccess (ReferenceShape (b_identifier name None)
            (convertTypeArguments env typeName typeArguments))
      | Some (TypeReferenceMacro convert) \<Rightarrow>
          (case convert of
             Macro_convertOmit \<Rightarrow> convertOmit env typeName typeArguments
           | Macro_convertReactComponent \<Rightarrow> convertReactComponent env typeName typeArguments
           | Macro_convertReactElement \<Rightarrow> convertReactElement env typeName typeArguments
           | Macro_convertJsxElement \<Rightarrow> convertJsxElement)
      | None \<Rightarrow>
          mkSuccess (ReferenceShape (convertEntityNameAsType typeName)
            (convertTypeArguments env typeName typeArguments)))"

| "convertOmit env typeName (Some [objectType, keysType]) =
     (let subtrahend =
        (case stringLiteralTypeText keysType of
           Some text \<Rightarrow>
             b_objectTypeAnnotation
               [b_objectTypeProperty (Inr (b_stringLiteral text)) b_mixedTypeAnnotation False]
               [] [] True None
         | None \<Rightarrow>
             (case keysType of
                UnionTypeNode p e types \<Rightarrow>
                  if list_all (\<lambda>t. stringLiteralTypeText t \<noteq> None) types then
                    b_objectTypeAnnotation
                      (map (\<lambda>t. b_objectTypeProperty
                                  (Inr (b_stringLiteral (the (stringLiteralTypeText t))))
                                  b_mixedTypeAnnotation False) types)
                      [] [] True None
                  else
                    b_objectTypeAnnotation []
                      [b_objectTypeIndexer (b_identifier ''key'' None)
                         (convertType env keysType) b_mixedTypeAnnotation]
                      [] True None
              | _ \<Rightarrow>
                  b_objectTypeAnnotation []
                    [b_objectTypeIndexer (b_identifier ''key'' None)
                       (convertType env keysType) b_mixedTypeAnnotation]
                    [] True None))
      in mkSuccess (ReferenceShape (b_identifier ''$Diff'' None)
           (Some (b_typeParameterInstantiation [convertType env objectType, subtrahend]))))"
| "convertOmit env typeName typeArguments =
     mkError (''bad Omit: '' @ toString (argumentCount typeArguments)
                @ '' arguments (expected 2)'')"

| "convertReactComponent env typeName None =
     mkSuccess (ReferenceShape (convertEntityNameAsType typeName)
       (Some (b_typeParameterInstantiation [b_objectTypeAnnotation [] [] [] False (Some True)])))"
| "convertReactComponent env typeName (Some []) =
     mkSuccess (ReferenceShape (convertEntityNameAsType typeName)
       (Some (b_typeParameterInstantiation [b_objectTypeAnnotation [] [] [] False (Some True)])))"
| "convertReactComponent env typeName (Some [propsType]) =
     mkSuccess (ReferenceShape (convertEntityNameAsType typeName)
       (Some (b_typeParameterInstantiation [convertType env propsType])))"
| "convertReactComponent env typeName (Some [propsType, stateType]) =
     mkSuccess (ReferenceShape (convertEntityNameAsType typeName)
       (Some (b_typeParameterInstantiation
          [convertType env propsType, convertType env stateType])))"
| "convertReactComponent env typeName typeArguments =
     mkError (''bad React.Component: '' @ toString (argumentCount typeArguments)
                @ '' arguments (expected 0-2)'')"

| "convertReactElement env typeName None =
     mkSuccess (ReferenceShape (b_identifier ''React$Element'' None)
       (Some (b_typeParameterInstantiation
          [b_genericTypeAnnotation (b_identifier ''React$ElementType'' None) None None])))"
| "convertReactElement env typeName (Some []) =
     mkSuccess (ReferenceShape (b_identifier ''React$Element'' None)
       (Some (b_typeParameterInstantiation
          [b_genericTypeAnnotation (b_identifier ''React$ElementType'' None) None None])))"
| "convertReactElement env typeName (Some [propsType]) =
     mkSuccess (ReferenceShape (b_identifier ''React$Element'' None)
       (Some (b_typeParameterInstantiation
          [b_genericTypeAnnotation (b_identifier ''React$ComponentType'' None)
             (Some (b_typeParameterInstantiation [convertType env propsType])) None])))"
| "convertReactElement env typeName (Some [propsType, typeType]) =
     mkSuccess (ReferenceShape (b_identifier ''React$Element'' None)
       (Some (b_typeParameterInstantiation [convertType env typeType])))"
| "convertReactElement env typeName typeArguments =
     mkError (''bad React.Element: '' @ toString (argumentCount typeArguments)
                @ '' arguments (expected 0-2)'')"

| "convertUnionType env (UnionTypeNode p e types) =
     b_unionTypeAnnotation (map (convertType env) types)"

| "convertFunctionType env (SignatureDeclaration typeParameters parameters type') =
     (let typeParams = convertTypeParameterDeclaration env typeParameters in
      case convertFunctionType_parameters env parameters [] of
        (params, restParam) \<Rightarrow>
          let resultType =
            (case type' of Some t \<Rightarrow> convertType env t | None \<Rightarrow> b_anyTypeAnnotation)
          in b_functionTypeAnnotation params resultType restParam typeParams)"

| "convertFunctionType_parameters env [] params = (params, None)"
| "convertFunctionType_parameters env (ParameterDeclaration pname dotDotDotToken questionToken type' # rest) params =
     (let name =
        (case pname of
           BindingName_Identifier i \<Rightarrow> Some (convertIdentifier i None)
         | BindingPattern _ \<Rightarrow> None)
      in if dotDotDotToken then
           (params,
            Some (b_functionTypeParam name
              (case type' of
                 Some t \<Rightarrow> convertType env t
               | None \<Rightarrow> b_arrayTypeAnnotation b_anyTypeAnnotation)
              False))
         else
           convertFunctionType_parameters env rest
             (params @ [b_functionTypeParam name
                (case type' of Some t \<Rightarrow> convertType env t | None \<Rightarrow> b_anyTypeAnnotation)
                questionToken]))"

| "convertTypeLiteral env (TypeLiteralNode p e members) =
     (case convertTypeLiteral_members env (TypeLiteralNode p e members) members [] of
        Inl returned \<Rightarrow> returned
      | Inr properties \<Rightarrow> b_objectTypeAnnotation properties [] [] True (Some False))"

| "convertTypeLiteral_members env node [] properties = Inr properties"
| "convertTypeLiteral_members env node (TypeElement_PropertySignature name questionToken type' # rest) properties =
     convertTypeLiteral_members env node rest
       (properties @ [b_objectTypeProperty (Inl (convertIdentifier name None))
          (case type' of Some t \<Rightarrow> convertType env t | None \<Rightarrow> b_anyTypeAnnotation)
          questionToken])"
| "convertTypeLiteral_members env node (TypeElement k # rest) properties =
     (if k \<in> {SyntaxKind_CallSignature, SyntaxKind_ConstructSignature,
               SyntaxKind_MethodSignature, SyntaxKind_GetAccessor, SyntaxKind_SetAccessor,
               SyntaxKind_IndexSignature} then
        Inl (unimplementedType env node (''TypeElement kind: '' @ SyntaxKindName env k))
      else
        Inl (errorType env node (''unexpected TypeElement kind: '' @ SyntaxKindName env k)))"

| "convertTypeParameterDeclaration env None = None"
| "convertTypeParameterDeclaration env (Some params) =
     Some (b_typeParameterDeclaration
       (map (\<lambda>param. case param of
               TypeParameterDeclaration (Identifier text) constraint default' \<Rightarrow>
                 b_typeParameter text None
                   (case constraint of
                      None \<Rightarrow> None
                    | Some c \<Rightarrow> Some (b_typeAnnotation (convertType env c)))
                   (case default' of None \<Rightarrow> None | Some d \<Rightarrow> Some (convertType env d)))
          params))"

| "convertTypeArguments env typeName (Some typeArguments) =
     Some (b_typeParameterInstantiation (map (convertType env) typeArguments))"
| "convertTypeArguments env typeName None =
     (let symbol = checker_getSymbolAtLocation env typeName in
      if some (case symbol of None \<Rightarrow> None | Some (Symbol n flags declarations) \<Rightarrow> declarations)
           (\<lambda>decl. case decl of Declaration typeParameters \<Rightarrow> typeParameters \<noteq> None)
      then Some (b_typeParameterInstantiation [])
      else None)"

  by pat_completeness auto

termination
  apply (relation "measure (\<lambda>x. case x of
      Inl (Inl (Inl (env, node))) \<Rightarrow> 2 * size node + 1
    | Inl (Inl (Inr (Inl (env, node)))) \<Rightarrow> 2 * size node
    | Inl (Inl (Inr (Inr (env, node)))) \<Rightarrow> 2 * size node
    | Inl (Inr (Inl (Inl (env, typeName, typeArguments)))) \<Rightarrow>
        2 * size_option (size_list size) typeArguments + 1
    | Inl (Inr (Inl (Inr (env, typeName, typeArguments)))) \<Rightarrow>
        2 * size_option (size_list size) typeArguments
    | Inl (Inr (Inr (Inl (env, typeName, typeArguments)))) \<Rightarrow>
        2 * size_option (size_list size) typeArguments
    | Inl (Inr (Inr (Inr (env, typeName, typeArguments)))) \<Rightarrow>
        2 * size_option (size_list size) typeArguments
    | Inr (Inl (Inl (env, node))) \<Rightarrow> 2 * size node
    | Inr (Inl (Inr (Inl (env, node)))) \<Rightarrow> 2 * size node
    | Inr (Inl (Inr (Inr (env, parameters, params)))) \<Rightarrow> 2 * size_list size parameters
    | Inr (Inr (Inl (Inl (env, node)))) \<Rightarrow> 2 * size node
    | Inr (Inr (Inl (Inr (env, node, members, properties)))) \<Rightarrow> 2 * size_list size members
    | Inr (Inr (Inr (Inl (env, params)))) \<Rightarrow> 2 * size_option (size_list size) params
    | Inr (Inr (Inr (Inr (env, typeName, typeArguments)))) \<Rightarrow>
        2 * size_option (size_list size) typeArguments)")
   apply (auto dest: size_list_estimation' [where f = size, OF _ le_refl])
  done

section \<open>Statements (\<^verbatim>\<open>convert.ts\<close>)\<close>

text \<open>
  A thrown \<^verbatim>\<open>new Error(message)\<close>. A function that can throw returns \<open>js_Error + 'a\<close>, with
  \<open>Inl\<close> the exception on its way to the nearest \<^verbatim>\<open>catch\<close>.
\<close>

datatype js_Error = Error string

text \<open>
  \<^verbatim>\<open>n.X.check(inner)\<close>, the type tests of ast-types. \<open>Declaration_check\<close> holds of the node
  types that ast-types derives from \<^verbatim>\<open>Declaration\<close>; \<^verbatim>\<open>DeclareFunction\<close> derives from
  \<^verbatim>\<open>Statement\<close> only.
\<close>

fun DeclareFunction_check :: "StatementKind \<Rightarrow> bool" where
  "DeclareFunction_check (b_declareFunction _ _) = True"
| "DeclareFunction_check _ = False"

fun DeclareClass_check :: "StatementKind \<Rightarrow> bool" where
  "DeclareClass_check (b_declareClass _ _ _ _ _) = True"
| "DeclareClass_check _ = False"

fun DeclareInterface_check :: "StatementKind \<Rightarrow> bool" where
  "DeclareInterface_check (b_declareInterface _ _ _ _ _) = True"
| "DeclareInterface_check _ = False"

fun EmptyStatement_check :: "StatementKind \<Rightarrow> bool" where
  "EmptyStatement_check (b_emptyStatement _) = True"
| "EmptyStatement_check _ = False"

fun Declaration_check :: "StatementKind \<Rightarrow> bool" where
  "Declaration_check (b_importDeclaration _ _ _) = True"
| "Declaration_check (b_exportAllDeclaration _ _ _) = True"
| "Declaration_check (b_exportNamedDeclaration _ _ _ _ _) = True"
| "Declaration_check (b_exportDefaultDeclaration _ _) = True"
| "Declaration_check (b_variableDeclaration _ _ _) = True"
| "Declaration_check (b_typeAlias _ _ _ _) = True"
| "Declaration_check (b_declareClass _ _ _ _ _) = True"
| "Declaration_check (b_declareInterface _ _ _ _ _) = True"
| "Declaration_check (b_interfaceDeclaration _ _ _ _ _) = True"
| "Declaration_check (b_declareExportDeclaration _ _ _) = True"
| "Declaration_check (b_emptyStatement _) = False"
| "Declaration_check (b_declareFunction _ _) = False"
| "Declaration_check (b_debuggerStatement _) = False"
| "Declaration_check (b_blockStatement _ _) = False"

definition modifyStatementAsExport :: "Env \<Rightarrow> StatementKind \<Rightarrow> ts_Statement \<Rightarrow> StatementKind" where
  \<open>modifyStatementAsExport env inner node =
     (if DeclareFunction_check inner \<or> DeclareClass_check inner then
        b_declareExportDeclaration (hasModifier node SyntaxKind_DefaultKeyword) inner None
      else if DeclareInterface_check inner then
        (case inner of
           b_declareInterface ident typeParameters extends body _ \<Rightarrow>
             b_exportNamedDeclaration
               (Some (b_interfaceDeclaration ident typeParameters extends body None))
               [] None None None
         | _ \<Rightarrow> inner)
      else if Declaration_check inner then
        b_exportNamedDeclaration (Some inner) [] None None None
      else if EmptyStatement_check inner then inner
      else
        warningStatement env inner node
          ''statement has "export", but conversion not a declaration'')\<close>

text \<open>One named import of \<^verbatim>\<open>convertImportDeclaration\<close>: the body of its loop.\<close>

definition convertImportDeclaration_binding :: "Env \<Rightarrow> ts_ImportSpecifier \<Rightarrow> ImportSpecifierKind" where
  "convertImportDeclaration_binding env binding =
     (case binding of ImportSpecifier propertyName name \<Rightarrow>
        let localSymbol = checker_getSymbolAtLocation env (EntityName_Identifier name);
            importedSymbol =
              (case localSymbol of
                 None \<Rightarrow> None
               | Some s \<Rightarrow> checker_getImmediateAliasedSymbol env s);
            isTypeOnly =
              (case importedSymbol of
                 None \<Rightarrow> False
               | Some (Symbol n flags declarations) \<Rightarrow> (flags AND SymbolFlags_Value) = 0)
        in b_importSpecifier
             (convertIdentifier (case propertyName of Some pn \<Rightarrow> pn | None \<Rightarrow> name) None)
             (convertIdentifier name None)
             (if isTypeOnly then ''type'' else ''value''))"

definition convertImportDeclaration ::
  "Env \<Rightarrow> ts_Statement \<Rightarrow> ts_ImportClause option \<Rightarrow> string \<Rightarrow> StatementKind" where
  "convertImportDeclaration env node importClause moduleSpecifier =
     (case importClause of
        None \<Rightarrow> unimplementedStatement env node ''ImportDeclaration with no import clause''
      | Some (ImportClause clauseModifiers name namedBindings) \<Rightarrow>
          if clauseModifiers \<noteq> None then
            unimplementedStatement env node ''ImportDeclaration with modifiers''
          else
            let specifiers0 =
                  (case name of
                     None \<Rightarrow> []
                   | Some n \<Rightarrow> [b_importDefaultSpecifier (convertIdentifier n None)]);
                specifiers =
                  (case namedBindings of
                     None \<Rightarrow> specifiers0
                   | Some (NamedImports elements) \<Rightarrow>
                       specifiers0 @ map (convertImportDeclaration_binding env) elements
                   | Some (NamespaceImport n) \<Rightarrow>
                       specifiers0 @ [b_importNamespaceSpecifier (convertIdentifier n None)]);
                source = b_stringLiteral moduleSpecifier
            in b_importDeclaration specifiers source None)"

text \<open>The character U+2026 of the source's message, as its UTF-8 bytes.\<close>

definition ellipsis :: string where
  "ellipsis = [CHR 0xE2, CHR 0x80, CHR 0xA6]"

definition convertExportDeclaration ::
  "Env \<Rightarrow> ts_Statement \<Rightarrow> bool \<Rightarrow> ts_NamedExportBindings option \<Rightarrow> string option \<Rightarrow> bool
    \<Rightarrow> StatementKind" where
  "convertExportDeclaration env node isTypeOnly exportClause moduleSpecifier assertClause =
     (if assertClause then
        unimplementedStatement env node
          (''`export '' @ ellipsis @ '' from '' @ [CHR 0x27] @ ''foo'' @ [CHR 0x27]
             @ '' assert { '' @ ellipsis @ '' }`'')
      else
        let source =
          (case moduleSpecifier of None \<Rightarrow> None | Some s \<Rightarrow> Some (b_stringLiteral s))
        in case exportClause of
             None \<Rightarrow>
               (case source of
                  None \<Rightarrow> errorStatement env node ''expected `export *` to have `from`''
                | Some src \<Rightarrow> b_exportAllDeclaration src None None)
           | Some (NamespaceExport name) \<Rightarrow>
               b_exportNamedDeclaration None
                 [b_exportNamespaceSpecifier (convertIdentifier name None)] source None None
           | Some (NamedExports elements) \<Rightarrow>
               let specifiers =
                 map (\<lambda>spec. case spec of
                        ExportSpecifier specIsTypeOnly propertyName name \<Rightarrow>
                          b_exportSpecifier
                            (convertIdentifier
                               (case propertyName of Some pn \<Rightarrow> pn | None \<Rightarrow> name) None)
                            (convertIdentifier name None)
                            (if specIsTypeOnly then ''type'' else ''value''))
                   elements
               in b_exportNamedDeclaration None specifiers source
                    (Some (if isTypeOnly then ''type'' else ''value'')) None
           | Some (NamedExportBindings k) \<Rightarrow>
               errorStatement env node (''unexpected export clause: '' @ SyntaxKindName env k))"

definition convertExportAssignment :: "Env \<Rightarrow> ts_Statement \<Rightarrow> bool \<Rightarrow> ts_Expression \<Rightarrow> StatementKind" where
  \<open>convertExportAssignment env node isExportEquals expression =
     (if isExportEquals then unimplementedStatement env node ''"export ="''
      else case expression of
          Expression_Identifier i \<Rightarrow> b_exportDefaultDeclaration (convertIdentifier i None) None
        | _ \<Rightarrow> unimplementedStatement env node ''"export default" with non-identifier'')\<close>

definition convertVariableStatement :: "Env \<Rightarrow> ts_VariableDeclarationList \<Rightarrow> StatementKind" where
  "convertVariableStatement env declarationList =
     (case declarationList of VariableDeclarationList nodeFlags declarations \<Rightarrow>
        let flags = nodeFlags AND (NodeFlags_Const OR NodeFlags_Let)
        in b_variableDeclaration
             (if flags = NodeFlags_Const then ''var''
              else if flags = NodeFlags_Let then ''let''
              else ''var'')
             (map_util declarations (\<lambda>node. case node of
                VariableDeclaration name type' \<Rightarrow>
                  b_variableDeclarator
                    (convertIdentifier name
                       (case type' of None \<Rightarrow> None | Some t \<Rightarrow> Some (convertType env t)))))
             None)"

definition convertTypeAliasDeclaration ::
  "Env \<Rightarrow> ts_Identifier \<Rightarrow> ts_TypeParameterDeclaration list option \<Rightarrow> ts_TypeNode
    \<Rightarrow> StatementKind" where
  "convertTypeAliasDeclaration env name typeParameters type' =
     b_typeAlias (convertIdentifier name None)
       (convertTypeParameterDeclaration env typeParameters) (convertType env type') None"

definition convertFunctionDeclaration ::
  "Env \<Rightarrow> ts_Statement \<Rightarrow> ts_Identifier option \<Rightarrow> ts_SignatureDeclaration \<Rightarrow> StatementKind" where
  "convertFunctionDeclaration env node name signature =
     (case name of
        None \<Rightarrow>
          if hasModifier node SyntaxKind_ExportKeyword
             \<and> hasModifier node SyntaxKind_DefaultKeyword then
            unimplementedStatement env node ''`export default function` with no name''
          else errorStatement env node ''expected name on FunctionDeclaration''
      | Some n \<Rightarrow>
          b_declareFunction (convertIdentifier n (Some (convertFunctionType env signature))) None)"

text \<open>
  \<^verbatim>\<open>convertName\<close>, the function nested in \<^verbatim>\<open>convertClassLikeDeclaration\<close>: a key, \<^verbatim>\<open>null\<close>
  (\<open>None\<close>) for a private name, or a throw.
\<close>

definition convertName ::
  "Env \<Rightarrow> ts_PropertyName \<Rightarrow> js_Error + (IdentifierKind + StringLiteral) option" where
  "convertName env node =
     (case node of
        PropertyName_Identifier i \<Rightarrow> Inr (Some (Inl (convertIdentifier i None)))
      | PropertyName_PrivateIdentifier _ \<Rightarrow> Inr None
      | PropertyName k \<Rightarrow>
          Inl (Error (''unimplemented: PropertyName kind '' @ SyntaxKindName env k)))"

text \<open>
  The loops of \<^verbatim>\<open>convertClassLikeDeclaration\<close>, each over the elements still to visit with
  the array it pushes to. \<open>Inl\<close> of a statement is a \<^verbatim>\<open>return\<close> from inside the loop. In the
  loop over the bases, \<open>entityNameOf expression\<close> is \<open>None\<close> when
  \<^verbatim>\<open>isEntityNameOrEntityNameExpression(expression)\<close> fails, and otherwise the expression as
  the entity name the test narrows it to.
\<close>

fun convertClassLikeDeclaration_types ::
  "Env \<Rightarrow> ts_Statement \<Rightarrow> ts_ExpressionWithTypeArguments list \<Rightarrow> InterfaceExtends list
    \<Rightarrow> StatementKind + InterfaceExtends list" where
  "convertClassLikeDeclaration_types env node [] extends = Inr extends"
| "convertClassLikeDeclaration_types env node (ExpressionWithTypeArguments expression typeArguments # rest) extends =
     (if \<not> isIdentifier expression \<and> \<not> isPropertyAccessExpression expression then
        Inl (errorStatement env node
          (''unexpected '' @ [CHR 0x27] @ ''extends'' @ [CHR 0x27] @ '' base kind: ''
             @ SyntaxKindName env (Expression_kind expression)))
      else
        (case entityNameOf expression of
           None \<Rightarrow>
             Inl (errorStatement env node
               ([CHR 0x27] @ ''extends'' @ [CHR 0x27] @ '' not an entity name''))
         | Some typeName \<Rightarrow>
             convertClassLikeDeclaration_types env node rest
               (extends @ [b_interfaceExtends (convertEntityNameAsType typeName)
                  (convertTypeArguments env typeName typeArguments)])))"

fun convertClassLikeDeclaration_heritageClauses ::
  "Env \<Rightarrow> ts_Statement \<Rightarrow> ts_HeritageClause list \<Rightarrow> InterfaceExtends list
    \<Rightarrow> StatementKind + InterfaceExtends list" where
  "convertClassLikeDeclaration_heritageClauses env node [] extends = Inr extends"
| "convertClassLikeDeclaration_heritageClauses env node (HeritageClause token types # rest) extends =
     (if token = SyntaxKind_ExtendsKeyword then
        (case convertClassLikeDeclaration_types env node types extends of
           Inl returned \<Rightarrow> Inl returned
         | Inr extends' \<Rightarrow> convertClassLikeDeclaration_heritageClauses env node rest extends')
      else
        Inl (unimplementedStatement env node
          (''class '' @ [CHR 0x27] @ ''implements'' @ [CHR 0x27])))"

fun convertClassLikeDeclaration_members ::
  "Env \<Rightarrow> ts_Statement \<Rightarrow> ts_ClassElement list \<Rightarrow> ObjectTypeProperty list
    \<Rightarrow> js_Error + (StatementKind + ObjectTypeProperty list)" where
  "convertClassLikeDeclaration_members env node [] properties = Inr (Inr properties)"
| "convertClassLikeDeclaration_members env node (ConstructorDeclaration member # rest) properties =
     convertClassLikeDeclaration_members env node rest
       (properties @ [b_objectTypeProperty (Inl (b_identifier ''constructor'' None))
          (convertFunctionType env member) False])"
| "convertClassLikeDeclaration_members env node (PropertySignature name questionToken type' # rest) properties =
     (case convertName env name of
        Inl err \<Rightarrow> Inl err
      | Inr None \<Rightarrow> convertClassLikeDeclaration_members env node rest properties
      | Inr (Some key) \<Rightarrow>
          convertClassLikeDeclaration_members env node rest
            (properties @ [b_objectTypeProperty key
               (case type' of Some t \<Rightarrow> convertType env t | None \<Rightarrow> b_anyTypeAnnotation)
               questionToken]))"
| "convertClassLikeDeclaration_members env node (PropertyDeclaration name questionToken type' # rest) properties =
     (case convertName env name of
        Inl err \<Rightarrow> Inl err
      | Inr None \<Rightarrow> convertClassLikeDeclaration_members env node rest properties
      | Inr (Some key) \<Rightarrow>
          convertClassLikeDeclaration_members env node rest
            (properties @ [b_objectTypeProperty key
               (case type' of Some t \<Rightarrow> convertType env t | None \<Rightarrow> b_anyTypeAnnotation)
               questionToken]))"
| "convertClassLikeDeclaration_members env node (MethodSignature name questionToken member # rest) properties =
     (case convertName env name of
        Inl err \<Rightarrow> Inl err
      | Inr None \<Rightarrow> convertClassLikeDeclaration_members env node rest properties
      | Inr (Some key) \<Rightarrow>
          convertClassLikeDeclaration_members env node rest
            (properties @ [b_objectTypeProperty key (convertFunctionType env member)
               questionToken]))"
| "convertClassLikeDeclaration_members env node (MethodDeclaration name questionToken member # rest) properties =
     (case convertName env name of
        Inl err \<Rightarrow> Inl err
      | Inr None \<Rightarrow> convertClassLikeDeclaration_members env node rest properties
      | Inr (Some key) \<Rightarrow>
          convertClassLikeDeclaration_members env node rest
            (properties @ [b_objectTypeProperty key (convertFunctionType env member)
               questionToken]))"
| "convertClassLikeDeclaration_members env node (ClassElement k # rest) properties =
     (if k \<in> {SyntaxKind_CallSignature, SyntaxKind_ConstructSignature,
               SyntaxKind_SemicolonClassElement, SyntaxKind_GetAccessor,
               SyntaxKind_SetAccessor, SyntaxKind_IndexSignature,
               SyntaxKind_ClassStaticBlockDeclaration} then
        Inr (Inl (unimplementedStatement env node
          (''ClassElement|TypeElement kind: '' @ SyntaxKindName env k)))
      else
        Inr (Inl (errorStatement env node
          (''unexpected ClassElement|TypeElement kind: '' @ SyntaxKindName env k))))"

definition isInterfaceDeclaration :: "ts_Statement \<Rightarrow> bool" where
  "isInterfaceDeclaration node = (case node of InterfaceDeclaration _ _ _ _ \<Rightarrow> True | _ \<Rightarrow> False)"

text \<open>
  \<^verbatim>\<open>convertClassLikeDeclaration(node)\<close>, given the node and the fields it reads of it.
\<close>

definition convertClassLikeDeclaration ::
  "Env \<Rightarrow> ts_Statement \<Rightarrow> ts_ClassLike \<Rightarrow> js_Error + StatementKind" where
  "convertClassLikeDeclaration env node classLike =
     (case classLike of ClassLike name nodeTypeParameters heritageClauses members \<Rightarrow>
      (case name of
        None \<Rightarrow>
          if hasModifier node SyntaxKind_ExportKeyword
             \<and> hasModifier node SyntaxKind_DefaultKeyword then
            Inr (unimplementedStatement env node ''`export default class` with no name'')
          else Inr (errorStatement env node ''anonymous class not in `export default`'')
      | Some n \<Rightarrow>
          let typeParameters = convertTypeParameterDeclaration env nodeTypeParameters
          in (case convertClassLikeDeclaration_heritageClauses env node
                     (case heritageClauses of None \<Rightarrow> [] | Some hs \<Rightarrow> hs) [] of
                Inl returned \<Rightarrow> Inr returned
              | Inr extends \<Rightarrow>
                  (case convertClassLikeDeclaration_members env node members [] of
                     Inl err \<Rightarrow> Inl err
                   | Inr (Inl returned) \<Rightarrow> Inr returned
                   | Inr (Inr properties) \<Rightarrow>
                       (let body = b_objectTypeAnnotation properties [] [] False None
                        in if isInterfaceDeclaration node then
                             Inr (b_declareInterface (convertIdentifier n None) typeParameters
                                    extends body None)
                           else
                             Inr (b_declareClass (convertIdentifier n None) typeParameters
                                    extends body None))))))"

text \<open>
  \<^verbatim>\<open>convertStatementExceptExport\<close>: the switch on the statement's kind. The kinds with a
  constructor of their own come first, as in the source; \<open>Statement k\<close> covers the other
  cases of the switch and its default.
\<close>

definition convertStatementExceptExport :: "Env \<Rightarrow> ts_Statement \<Rightarrow> js_Error + StatementKind" where
  "convertStatementExceptExport env node =
     (case node of
        ImportDeclaration p e ms importClause moduleSpecifier \<Rightarrow>
          Inr (convertImportDeclaration env node importClause moduleSpecifier)
      | ExportDeclaration p e ms isTypeOnly exportClause moduleSpecifier assertClause \<Rightarrow>
          Inr (convertExportDeclaration env node isTypeOnly exportClause moduleSpecifier
                 assertClause)
      | ExportAssignment p e ms isExportEquals expression \<Rightarrow>
          Inr (convertExportAssignment env node isExportEquals expression)
      | VariableStatement p e ms declarationList \<Rightarrow>
          Inr (convertVariableStatement env declarationList)
      | TypeAliasDeclaration p e ms name typeParameters type' \<Rightarrow>
          Inr (convertTypeAliasDeclaration env name typeParameters type')
      | FunctionDeclaration p e ms name signature \<Rightarrow>
          Inr (convertFunctionDeclaration env node name signature)
      | ClassDeclaration p e ms classLike \<Rightarrow> convertClassLikeDeclaration env node classLike
      | InterfaceDeclaration p e ms classLike \<Rightarrow> convertClassLikeDeclaration env node classLike
      | Statement k p e ms \<Rightarrow>
          if k \<in> {SyntaxKind_Block, SyntaxKind_EmptyStatement, SyntaxKind_EnumDeclaration,
                    SyntaxKind_ModuleDeclaration, SyntaxKind_NamespaceExportDeclaration,
                    SyntaxKind_ImportEqualsDeclaration, SyntaxKind_MissingDeclaration} then
            Inr (unimplementedStatement env node (SyntaxKindName env k))
          else if k \<in> {SyntaxKind_ExpressionStatement, SyntaxKind_IfStatement,
                    SyntaxKind_DoStatement, SyntaxKind_WhileStatement, SyntaxKind_ForStatement,
                    SyntaxKind_ForInStatement, SyntaxKind_ForOfStatement,
                    SyntaxKind_ContinueStatement, SyntaxKind_BreakStatement,
                    SyntaxKind_ReturnStatement, SyntaxKind_WithStatement,
                    SyntaxKind_SwitchStatement, SyntaxKind_LabeledStatement,
                    SyntaxKind_ThrowStatement, SyntaxKind_TryStatement,
                    SyntaxKind_DebuggerStatement, SyntaxKind_CaseBlock} then
            Inr (unimplementedStatement env node (SyntaxKindName env k))
          else if k \<in> {SyntaxKind_VariableDeclaration, SyntaxKind_VariableDeclarationList,
                    SyntaxKind_ModuleBlock, SyntaxKind_ImportClause, SyntaxKind_NamespaceImport,
                    SyntaxKind_NamedImports, SyntaxKind_ImportSpecifier, SyntaxKind_NamedExports,
                    SyntaxKind_NamespaceExport, SyntaxKind_ExportSpecifier} then
            Inr (errorStatement env node
                   (''unexpected statement kind: '' @ SyntaxKindName env k))
          else
            Inr (errorStatement env node
                   (''unexpected statement kind: '' @ SyntaxKindName env k)))"

text \<open>
  \<^verbatim>\<open>convertStatement\<close>: the \<^verbatim>\<open>try\<close> block gives the converted statement or the exception;
  the \<^verbatim>\<open>catch\<close> turns the exception into an error statement. (The \<^verbatim>\<open>console.error\<close> of the
  handler writes to the log only.)
\<close>

definition convertStatement_try :: "Env \<Rightarrow> ts_Statement \<Rightarrow> js_Error + StatementKind" where
  "convertStatement_try env node =
     (case convertStatementExceptExport env node of
        Inl err \<Rightarrow> Inl err
      | Inr inner \<Rightarrow>
          if hasModifier node SyntaxKind_ExportKeyword then
            Inr (modifyStatementAsExport env inner node)
          else Inr inner)"

definition convertStatement :: "Env \<Rightarrow> ts_Statement \<Rightarrow> StatementKind" where
  "convertStatement env node =
     (case convertStatement_try env node of
        Inr converted \<Rightarrow> converted
      | Inl (Error message) \<Rightarrow> errorStatement env node (''internal error: '' @ message))"

definition headerComment :: string where
  "headerComment = '' @flow'' @ [CHR 0x0A] @ '' * @generated by TsFlower'' @ [CHR 0x0A] @ '' ''"

definition convertSourceFile :: "Env \<Rightarrow> ts_Statement list \<Rightarrow> File" where
  "convertSourceFile env statements =
     b_file
       (b_program (Some [b_commentBlock headerComment True False])
          (map (convertStatement env) statements))
       (sourceFile_fileName env)"

section \<open>An example file\<close>

text \<open>
  A small environment for evaluating the converter: the text of a file, a checker that
  resolves a few names, and a mapper holding rewrites of the kinds \<^verbatim>\<open>rewrite.ts\<close>
  registers. \<^verbatim>\<open>ts.SyntaxKind[k]\<close> is taken to give the name of the member.
\<close>

definition exampleEnv :: Env where
  "exampleEnv =
     \<lparr> sourceFile_text = ''f(); interface I { (): void; [k]: number } type T = Omit<number>;'',
       sourceFile_fileName = ''example.d.ts'',
       checker_getSymbolAtLocation =
         (\<lambda>typeName.
            if typeName = EntityName_Identifier (Identifier ''Readonly'') then
              Some (Symbol 1 524288
                (Some [Declaration (Some [TypeParameterDeclaration (Identifier ''T'') None None])]))
            else if typeName = EntityName_Identifier (Identifier ''Omit'') then
              Some (Symbol 2 524288
                (Some [Declaration (Some [TypeParameterDeclaration (Identifier ''T'') None None,
                                          TypeParameterDeclaration (Identifier ''K'') None None])]))
            else if typeName = QualifiedName (EntityName_Identifier (Identifier ''JSX''))
                                 (Identifier ''Element'') then
              Some (Symbol 3 64 (Some [Declaration None]))
            else if typeName = EntityName_Identifier (Identifier ''ReactElement'') then
              Some (Symbol 4 64
                (Some [Declaration (Some [TypeParameterDeclaration (Identifier ''P'') None
                                            (Some (TypeNode SyntaxKind_AnyKeyword 0 0))])]))
            else if typeName = EntityName_Identifier (Identifier ''Box'') then
              Some (Symbol 5 64
                (Some [Declaration (Some [TypeParameterDeclaration (Identifier ''T'') None
                                            (Some (TypeNode SyntaxKind_AnyKeyword 0 0))])]))
            else if typeName = EntityName_Identifier (Identifier ''Point'') then
              Some (Symbol 6 64 (Some [Declaration None]))
            else None),
       checker_getImmediateAliasedSymbol = (\<lambda>symbol. None),
       mapper_getSymbol =
         (\<lambda>symbol. case symbol of Symbol n flags declarations \<Rightarrow>
            if n = 1 then Some (FixedName ''$ReadOnly'')
            else if n = 2 then Some (TypeReferenceMacro Macro_convertOmit)
            else if n = 3 then Some (TypeReferenceMacro Macro_convertJsxElement)
            else if n = 4 then Some (TypeReferenceMacro Macro_convertReactElement)
            else None),
       SyntaxKindName = (\<lambda>k. case k of SyntaxKind s \<Rightarrow> s) \<rparr>"

section \<open>Properties\<close>

lemma exampleEnv_text [simp]:
  "sourceFile_text exampleEnv = ''f(); interface I { (): void; [k]: number } type T = Omit<number>;''"
  by (simp add: exampleEnv_def)

lemma exampleEnv_SyntaxKindName [simp]: "SyntaxKindName exampleEnv (SyntaxKind s) = s"
  by (simp add: exampleEnv_def)

lemma exampleEnv_checker [simp]:
  "checker_getSymbolAtLocation exampleEnv (EntityName_Identifier (Identifier ''Readonly'')) =
     Some (Symbol 1 524288
       (Some [Declaration (Some [TypeParameterDeclaration (Identifier ''T'') None None])]))"
  "checker_getSymbolAtLocation exampleEnv (EntityName_Identifier (Identifier ''Omit'')) =
     Some (Symbol 2 524288
       (Some [Declaration (Some [TypeParameterDeclaration (Identifier ''T'') None None,
                                 TypeParameterDeclaration (Identifier ''K'') None None])]))"
  "checker_getSymbolAtLocation exampleEnv
     (QualifiedName (EntityName_Identifier (Identifier ''JSX'')) (Identifier ''Element'')) =
     Some (Symbol 3 64 (Some [Declaration None]))"
  "checker_getSymbolAtLocation exampleEnv (EntityName_Identifier (Identifier ''ReactElement'')) =
     Some (Symbol 4 64
       (Some [Declaration (Some [TypeParameterDeclaration (Identifier ''P'') None
                                   (Some (TypeNode SyntaxKind_AnyKeyword 0 0))])]))"
  "checker_getSymbolAtLocation exampleEnv (EntityName_Identifier (Identifier ''Box'')) =
     Some (Symbol 5 64
       (Some [Declaration (Some [TypeParameterDeclaration (Identifier ''T'') None
                                   (Some (TypeNode SyntaxKind_AnyKeyword 0 0))])]))"
  "checker_getSymbolAtLocation exampleEnv (EntityName_Identifier (Identifier ''Point'')) =
     Some (Symbol 6 64 (Some [Declaration None]))"
  by (simp_all add: exampleEnv_def)

lemma exampleEnv_mapper [simp]:
  "mapper_getSymbol exampleEnv (Symbol n flags declarations) =
     (if n = 1 then Some (FixedName ''$ReadOnly'')
      else if n = 2 then Some (TypeReferenceMacro Macro_convertOmit)
      else if n = 3 then Some (TypeReferenceMacro Macro_convertJsxElement)
      else if n = 4 then Some (TypeReferenceMacro Macro_convertReactElement)
      else None)"
  by (simp add: exampleEnv_def)

lemma slice_in_range:
  assumes "0 \<le> start" "start \<le> stop" "stop \<le> int (length s)"
  shows "slice s start stop = take (nat (stop - start)) (drop (nat start) s)"
  using assms by (simp add: slice_def Let_def min_def)

lemma hasModifier_None [simp]: "hasModifier (Statement k p e None) m = False"
  by (simp add: hasModifier_def some_def)

lemma modifyStatementAsExport_empty [simp]:
  "modifyStatementAsExport env (b_emptyStatement cs) node = b_emptyStatement cs"
  by (simp add: modifyStatementAsExport_def)

lemma convertStatement_of_empty:
  assumes "convertStatementExceptExport env node = Inr (b_emptyStatement cs)"
  shows "convertStatement env node = b_emptyStatement cs"
  using assms by (simp add: convertStatement_def convertStatement_try_def)

lemma length_not_two:
  assumes "length xs \<noteq> 2"
  shows "xs = [] \<or> (\<exists>a. xs = [a]) \<or> (\<exists>a b c ds. xs = a # b # c # ds)"
proof (cases xs)
  case Nil
  then show ?thesis by simp
next
  case (Cons a ys)
  note xs = this
  show ?thesis
  proof (cases ys)
    case Nil
    with xs show ?thesis by simp
  next
    case (Cons b zs)
    with xs assms obtain c ds where "zs = c # ds" by (cases zs) auto
    with xs Cons show ?thesis by simp
  qed
qed

lemma declares_iff:
  "list_ex (case_ts_Declaration (\<lambda>typeParameters. \<exists>y. typeParameters = Some y)) declarations
     \<longleftrightarrow> (\<exists>typeParameters. Declaration (Some typeParameters) \<in> set declarations)"
  by (induction declarations) (auto split: ts_Declaration.splits)

text \<open>
  Claim C9. An import declaration with no import clause converts to the unimplemented
  placeholder with the diagnostic \<^verbatim>\<open>ImportDeclaration with no import clause\<close>.
\<close>

theorem import_without_clause_unimplemented:
  "convertStatement env (ImportDeclaration p e ms None moduleSpecifier) =
     b_emptyStatement (Some
       [b_commentBlock '' tsflower-unimplemented: ImportDeclaration with no import clause ''
          True False,
        b_commentBlock ('' '' @ slice (sourceFile_text env) p e @ '' '') False True])"
  by (rule convertStatement_of_empty)
     (simp add: convertStatementExceptExport_def convertImportDeclaration_def
        unimplementedStatement_def quotedStatement_def)

text \<open>
  Claim C2. The claim says that the executable-statement kinds are converted to an invalid
  placeholder (a \<^verbatim>\<open>tsflower-error\<close> diagnostic). The converter gives an expression statement
  the \<^verbatim>\<open>tsflower-unimplemented\<close> diagnostic, which no error statement carries.
\<close>

theorem executable_statement_counterexample:
  "convertStatement exampleEnv (Statement SyntaxKind_ExpressionStatement 0 4 None) =
     b_emptyStatement (Some
       [b_commentBlock '' tsflower-unimplemented: ExpressionStatement '' True False,
        b_commentBlock '' f(); '' False True])
   \<and> (\<forall>description.
        convertStatement exampleEnv (Statement SyntaxKind_ExpressionStatement 0 4 None)
          \<noteq> errorStatement exampleEnv (Statement SyntaxKind_ExpressionStatement 0 4 None)
               description)"
  by (simp add: convertStatement_def convertStatement_try_def convertStatementExceptExport_def
        unimplementedStatement_def errorStatement_def quotedStatement_def slice_def)

text \<open>C2a\<close>

theorem executable_statement_unimplemented:
  assumes "k \<in> {SyntaxKind_ExpressionStatement, SyntaxKind_IfStatement,
                 SyntaxKind_DoStatement, SyntaxKind_WhileStatement, SyntaxKind_ForStatement,
                 SyntaxKind_ForInStatement, SyntaxKind_ForOfStatement,
                 SyntaxKind_ContinueStatement, SyntaxKind_BreakStatement,
                 SyntaxKind_ReturnStatement, SyntaxKind_WithStatement,
                 SyntaxKind_SwitchStatement, SyntaxKind_LabeledStatement,
                 SyntaxKind_ThrowStatement, SyntaxKind_TryStatement,
                 SyntaxKind_DebuggerStatement, SyntaxKind_CaseBlock}"
  shows "convertStatement env (Statement k p e ms) =
     b_emptyStatement (Some
       [b_commentBlock ('' tsflower-unimplemented: '' @ SyntaxKindName env k @ '' '') True False,
        b_commentBlock ('' '' @ slice (sourceFile_text env) p e @ '' '') False True])"
proof -
  have "convertStatementExceptExport env (Statement k p e ms) =
      Inr (unimplementedStatement env (Statement k p e ms) (SyntaxKindName env k))"
    using assms unfolding convertStatementExceptExport_def by auto
  then show ?thesis
    by (intro convertStatement_of_empty)
       (simp add: unimplementedStatement_def quotedStatement_def)
qed

theorem executable_statement_unimplemented_witness:
  "convertStatement exampleEnv
     (Statement SyntaxKind_DebuggerStatement 0 4 (Some [SyntaxKind_ExportKeyword])) =
     b_emptyStatement (Some
       [b_commentBlock '' tsflower-unimplemented: DebuggerStatement '' True False,
        b_commentBlock '' f(); '' False True])"
  using executable_statement_unimplemented
    [of SyntaxKind_DebuggerStatement exampleEnv 0 4 "Some [SyntaxKind_ExportKeyword]"]
  by (simp add: slice_def)

text \<open>
  Claim C3. The claim says that an export modifier on a result that is no declaration
  and no empty statement gives an unimplemented placeholder. On such a result (here a
  debugger statement) \<^verbatim>\<open>modifyStatementAsExport\<close> returns the result itself, not an empty
  statement, with a \<^verbatim>\<open>tsflower-warning\<close> diagnostic.
\<close>

theorem export_of_non_declaration_counterexample:
  \<open>modifyStatementAsExport exampleEnv (b_debuggerStatement None)
     (Statement SyntaxKind_DebuggerStatement 0 4 (Some [SyntaxKind_ExportKeyword])) =
     b_debuggerStatement (Some
       [b_commentBlock
          '' tsflower-warning: statement has "export", but conversion not a declaration ''
          True False,
        b_commentBlock '' f(); '' False True])
   \<and> \<not> EmptyStatement_check
         (modifyStatementAsExport exampleEnv (b_debuggerStatement None)
            (Statement SyntaxKind_DebuggerStatement 0 4 (Some [SyntaxKind_ExportKeyword])))\<close>
  by (simp add: modifyStatementAsExport_def warningStatement_def quotedStatement_def slice_def)

text \<open>C3a\<close>

theorem export_of_non_declaration_warning:
  assumes "\<not> DeclareFunction_check inner" "\<not> DeclareClass_check inner"
    "\<not> DeclareInterface_check inner" "\<not> Declaration_check inner"
    "\<not> EmptyStatement_check inner"
  shows \<open>modifyStatementAsExport env inner node =
     with_comments inner (Some
       [b_commentBlock
          '' tsflower-warning: statement has "export", but conversion not a declaration ''
          True False,
        b_commentBlock ('' '' @ slice (sourceFile_text env) (pos node) (end' node) @ '' '')
          False True])\<close>
  using assms
  by (simp add: modifyStatementAsExport_def warningStatement_def quotedStatement_def)

theorem export_of_non_declaration_warning_witness:
  \<open>modifyStatementAsExport exampleEnv (b_blockStatement [] None)
     (Statement SyntaxKind_Block 0 4 (Some [SyntaxKind_ExportKeyword])) =
     b_blockStatement [] (Some
       [b_commentBlock
          '' tsflower-warning: statement has "export", but conversion not a declaration ''
          True False,
        b_commentBlock '' f(); '' False True])\<close>
  using export_of_non_declaration_warning
    [of "b_blockStatement [] None" exampleEnv
        "Statement SyntaxKind_Block 0 4 (Some [SyntaxKind_ExportKeyword])"]
  by (simp add: slice_def)

text \<open>
  Claim C1. \<^verbatim>\<open>convertStatement\<close> always returns a target statement: its \<^verbatim>\<open>try\<close> block either
  gives the converted statement, which is returned, or throws an error with some message,
  and then the result is the empty statement whose comments are the diagnostic
  \<^verbatim>\<open>tsflower-error: internal error: <message>\<close> and the quotation of the statement's source
  span. The statements of a file are converted one by one, so the statements before and
  after a statement whose conversion throws are converted as they are without it.
\<close>

theorem convertStatement_catches:
  "(\<forall>message. convertStatement_try env node = Inl (Error message) \<longrightarrow>
      convertStatement env node =
        b_emptyStatement (Some
          [b_commentBlock ('' tsflower-error: internal error: '' @ message @ '' '') True False,
           b_commentBlock
             ('' '' @ slice (sourceFile_text env) (pos node) (end' node) @ '' '') False True]))
   \<and> (\<forall>converted. convertStatement_try env node = Inr converted \<longrightarrow>
          convertStatement env node = converted)
   \<and> convertSourceFile env (before @ node # after) =
       b_file
         (b_program (Some [b_commentBlock headerComment True False])
            (map (convertStatement env) before @ convertStatement env node
               # map (convertStatement env) after))
         (sourceFile_fileName env)"
  by (simp add: convertStatement_def convertSourceFile_def errorStatement_def
        quotedStatement_def)

theorem convertStatement_catches_witness:
  "convertStatement_try exampleEnv
     (InterfaceDeclaration 4 42 None
        (ClassLike (Some (Identifier ''I'')) None None
           [PropertySignature (PropertyName SyntaxKind_ComputedPropertyName) False
              (Some (TypeNode SyntaxKind_NumberKeyword 33 40))])) =
     Inl (Error ''unimplemented: PropertyName kind ComputedPropertyName'')
   \<and> convertStatement exampleEnv
     (InterfaceDeclaration 4 42 None
        (ClassLike (Some (Identifier ''I'')) None None
           [PropertySignature (PropertyName SyntaxKind_ComputedPropertyName) False
              (Some (TypeNode SyntaxKind_NumberKeyword 33 40))])) =
     b_emptyStatement (Some
       [b_commentBlock
          '' tsflower-error: internal error: unimplemented: PropertyName kind ComputedPropertyName ''
          True False,
        b_commentBlock ''  interface I { (): void; [k]: number } '' False True])"
proof -
  let ?node = "InterfaceDeclaration 4 42 None
        (ClassLike (Some (Identifier ''I'')) None None
           [PropertySignature (PropertyName SyntaxKind_ComputedPropertyName) False
              (Some (TypeNode SyntaxKind_NumberKeyword 33 40))])"
  have h: "convertStatement_try exampleEnv ?node =
      Inl (Error ''unimplemented: PropertyName kind ComputedPropertyName'')"
    by (simp add: convertStatement_try_def convertStatementExceptExport_def
          convertClassLikeDeclaration_def convertName_def)
  from convertStatement_catches [of exampleEnv ?node] h show ?thesis
    by (simp add: slice_def)
qed

text \<open>
  Claim C4. When the symbol of a type reference's name has a \<^verbatim>\<open>FixedName\<close> rule, the
  reference converts to a generic type whose identifier is the bare name of the rule,
  whatever the (possibly qualified) name in the source, and whose type arguments are the
  converted type arguments of the reference.
\<close>

theorem fixedName_reference:
  assumes "checker_getSymbolAtLocation env typeName = Some symbol"
    and "mapper_getSymbol env symbol = Some (FixedName name)"
  shows "convertType env (TypeReferenceNode p e typeName (Some args)) =
           b_genericTypeAnnotation (b_identifier name None)
             (Some (b_typeParameterInstantiation (map (convertType env) args))) None
       \<and> convertType env (TypeReferenceNode p e typeName None) =
           b_genericTypeAnnotation (b_identifier name None)
             (convertTypeArguments env typeName None) None
       \<and> convertTypeReferenceLike env typeName typeArguments =
           success (ReferenceShape (b_identifier name None)
             (convertTypeArguments env typeName typeArguments))"
  using assms by (simp add: mkSuccess_def del: convertTypeArguments.simps(2))

theorem fixedName_reference_witness:
  "checker_getSymbolAtLocation exampleEnv (EntityName_Identifier (Identifier ''Readonly'')) =
     Some (Symbol 1 524288
       (Some [Declaration (Some [TypeParameterDeclaration (Identifier ''T'') None None])]))
   \<and> mapper_getSymbol exampleEnv (Symbol 1 524288
       (Some [Declaration (Some [TypeParameterDeclaration (Identifier ''T'') None None])])) =
     Some (FixedName ''$ReadOnly'')
   \<and> convertType exampleEnv
       (TypeReferenceNode 0 16 (EntityName_Identifier (Identifier ''Readonly''))
          (Some [TypeNode SyntaxKind_NumberKeyword 9 15])) =
     b_genericTypeAnnotation (b_identifier ''$ReadOnly'' None)
       (Some (b_typeParameterInstantiation [b_numberTypeAnnotation])) None"
  using fixedName_reference
    [of exampleEnv "EntityName_Identifier (Identifier ''Readonly'')"
        "Symbol 1 524288
           (Some [Declaration (Some [TypeParameterDeclaration (Identifier ''T'') None None])])"
        "''$ReadOnly''" 0 16 "[TypeNode SyntaxKind_NumberKeyword 9 15]"]
  by simp

text \<open>
  Claim C5. With a number of type arguments other than 2 (an absent list counting as 0),
  \<^verbatim>\<open>convertOmit\<close> returns the error outcome \<^verbatim>\<open>bad Omit: <n> arguments (expected 2)\<close>, and a
  type reference whose symbol is mapped to that macro converts to the \<^verbatim>\<open>$FlowFixMe\<close>
  placeholder that carries the quotation of the reference and the \<^verbatim>\<open>tsflower-error\<close>
  diagnostic with that description.
\<close>

theorem convertOmit_bad_arity:
  assumes "argumentCount typeArguments \<noteq> 2"
  shows "convertOmit env typeName typeArguments =
           error (''bad Omit: '' @ toString (argumentCount typeArguments)
                    @ '' arguments (expected 2)'')
       \<and> (\<forall>symbol. checker_getSymbolAtLocation env typeName = Some symbol
             \<and> mapper_getSymbol env symbol = Some (TypeReferenceMacro Macro_convertOmit) \<longrightarrow>
           convertType env (TypeReferenceNode p e typeName typeArguments) =
             b_genericTypeAnnotation (b_identifier ''$FlowFixMe'' None) None
               (Some
                 [b_commentBlock ('' '' @ slice (sourceFile_text env) p e @ '' '') False True,
                  b_commentBlock
                    ('' tsflower-error: bad Omit: '' @ toString (argumentCount typeArguments)
                       @ '' arguments (expected 2) '') False True]))"
proof -
  have omit: "convertOmit env typeName typeArguments =
      error (''bad Omit: '' @ toString (argumentCount typeArguments)
               @ '' arguments (expected 2)'')"
  proof (cases typeArguments)
    case None
    then show ?thesis by (simp add: mkError_def)
  next
    case (Some xs)
    with assms have "length xs \<noteq> 2" by (simp add: argumentCount_def)
    from length_not_two [OF this] Some show ?thesis
      by (auto simp: mkError_def)
  qed
  then show ?thesis
    by (simp add: errorType_def quotedInlineNode_def)
qed

theorem convertOmit_bad_arity_witness:
  "argumentCount (Some [TypeNode SyntaxKind_NumberKeyword 57 63]) \<noteq> 2
   \<and> convertType exampleEnv
       (TypeReferenceNode 51 64 (EntityName_Identifier (Identifier ''Omit''))
          (Some [TypeNode SyntaxKind_NumberKeyword 57 63])) =
     b_genericTypeAnnotation (b_identifier ''$FlowFixMe'' None) None
       (Some
         [b_commentBlock ''  Omit<number> '' False True,
          b_commentBlock '' tsflower-error: bad Omit: 1 arguments (expected 2) '' False True])"
  using convertOmit_bad_arity
    [of "Some [TypeNode SyntaxKind_NumberKeyword 57 63]" exampleEnv
        "EntityName_Identifier (Identifier ''Omit'')" 51 64]
  by (simp add: argumentCount_def slice_def toString.simps mkError_def errorType_def
        quotedInlineNode_def)

text \<open>
  Claim C6. The claim speaks of every type reference with no type-argument list. A
  reference rewritten by a macro gets the arguments the macro builds: \<^verbatim>\<open>JSX.Element\<close>, whose
  declaration has no type parameters, converts to a reference with one argument, and
  \<^verbatim>\<open>ReactElement\<close>, whose declaration has type parameters, to a reference with a list that
  is not empty.
\<close>

theorem omitted_arguments_counterexample:
  "checker_getSymbolAtLocation exampleEnv
     (QualifiedName (EntityName_Identifier (Identifier ''JSX'')) (Identifier ''Element'')) =
     Some (Symbol 3 64 (Some [Declaration None]))
   \<and> convertType exampleEnv
       (TypeReferenceNode 0 11
          (QualifiedName (EntityName_Identifier (Identifier ''JSX'')) (Identifier ''Element''))
          None) =
     b_genericTypeAnnotation (b_identifier ''React$Element'' None)
       (Some (b_typeParameterInstantiation [b_anyTypeAnnotation])) None
   \<and> checker_getSymbolAtLocation exampleEnv
       (EntityName_Identifier (Identifier ''ReactElement'')) =
     Some (Symbol 4 64
       (Some [Declaration (Some [TypeParameterDeclaration (Identifier ''P'') None
                                   (Some (TypeNode SyntaxKind_AnyKeyword 0 0))])]))
   \<and> convertType exampleEnv
       (TypeReferenceNode 0 12 (EntityName_Identifier (Identifier ''ReactElement'')) None) =
     b_genericTypeAnnotation (b_identifier ''React$Element'' None)
       (Some (b_typeParameterInstantiation
          [b_genericTypeAnnotation (b_identifier ''React$ElementType'' None) None None]))
       None"
  by (simp add: convertJsxElement_def mkSuccess_def)

text \<open>C6a\<close>

theorem omitted_arguments_policy:
  assumes "\<forall>convert.
      (case checker_getSymbolAtLocation env typeName of
         None \<Rightarrow> None
       | Some symbol \<Rightarrow> mapper_getSymbol env symbol) \<noteq> Some (TypeReferenceMacro convert)"
  shows "\<exists>ident.
      convertType env (TypeReferenceNode p e typeName None) =
        b_genericTypeAnnotation ident
          (if \<exists>n flags declarations typeParameters.
                checker_getSymbolAtLocation env typeName
                  = Some (Symbol n flags (Some declarations))
                \<and> Declaration (Some typeParameters) \<in> set declarations
           then Some (b_typeParameterInstantiation [])
           else None)
          None"
proof -
  have args: "convertTypeArguments env typeName None =
      (if \<exists>n flags declarations typeParameters.
            checker_getSymbolAtLocation env typeName = Some (Symbol n flags (Some declarations))
            \<and> Declaration (Some typeParameters) \<in> set declarations
       then Some (b_typeParameterInstantiation [])
       else None)"
  proof (cases "checker_getSymbolAtLocation env typeName")
    case None
    then show ?thesis by (simp add: some_def)
  next
    case (Some symbol)
    obtain n flags ds where symbol: "symbol = Symbol n flags ds" by (cases symbol)
    show ?thesis
    proof (cases ds)
      case None
      with Some symbol show ?thesis by (simp add: some_def)
    next
      case (Some declarations)
      with symbol \<open>checker_getSymbolAtLocation env typeName = Some symbol\<close>
      show ?thesis by (simp add: some_def declares_iff)
    qed
  qed
  show ?thesis
  proof (cases "case checker_getSymbolAtLocation env typeName of
         None \<Rightarrow> None | Some symbol \<Rightarrow> mapper_getSymbol env symbol")
    case None
    then show ?thesis
      unfolding args [symmetric]
      by (simp add: mkSuccess_def del: convertTypeArguments.simps(2))
  next
    case (Some mapped)
    with assms obtain name where "mapped = FixedName name" by (cases mapped) auto
    with Some show ?thesis
      unfolding args [symmetric]
      by (simp add: mkSuccess_def del: convertTypeArguments.simps(2))
  qed
qed

theorem omitted_arguments_policy_witness:
  "(\<forall>convert.
      (case checker_getSymbolAtLocation exampleEnv (EntityName_Identifier (Identifier ''Box'')) of
         None \<Rightarrow> None
       | Some symbol \<Rightarrow> mapper_getSymbol exampleEnv symbol) \<noteq> Some (TypeReferenceMacro convert))
   \<and> convertType exampleEnv
       (TypeReferenceNode 0 3 (EntityName_Identifier (Identifier ''Box'')) None) =
     b_genericTypeAnnotation (b_identifier ''Box'' None)
       (Some (b_typeParameterInstantiation [])) None
   \<and> convertType exampleEnv
       (TypeReferenceNode 0 5 (EntityName_Identifier (Identifier ''Point'')) None) =
     b_genericTypeAnnotation (b_identifier ''Point'' None) None None"
  using omitted_arguments_policy [of exampleEnv "EntityName_Identifier (Identifier ''Box'')" 0 3]
  by (simp add: mkSuccess_def convertIdentifier_def some_def)

end
